theory Spec2Isabelle
  imports Complex_Main "HOL-Library.Sublist" "HOL-Library.Char_ord" "HOL-Library.List_Lexorder"
    "HOL-Library.Product_Lexorder"
begin

section \<open>JavaScript values and errors\<close>

text \<open>
  The handlers receive and return untyped JavaScript values (\<open>any\<close>). A value is
  modelled by \<open>jsval\<close>. An object is the list of its own enumerable properties in
  the order \<open>Object.entries\<close> reports them; an array is the list of its elements.
  The type \<open>'n\<close> is the type of the numbers other than NaN, which is \<open>JNaN\<close>;
  the functions below use of it only \<open>0\<close>, \<open>+\<close> and the order, and assume nothing
  about arithmetic. A \<open>Date\<close> carries its time value in milliseconds (\<open>None\<close> for
  an invalid date). An ObjectId is represented by its hexadecimal text.

  A string is the list of the bytes of its UTF-8 encoding, the form in which a request
  carries it and the database stores and compares it: a character up to U+007F is one
  byte, the byte of no other character is below \<open>0x80\<close>, and U+00A0, for one, is the
  two bytes \<open>0xC2 0xA0\<close>. The functions of the source that look at single characters
  look for characters up to U+007F, so they read the bytes as they read the characters;
  white space, which has characters beyond U+007F, is recognised by its byte sequences.
\<close>

datatype 'n jsval =
    JUndefined
  | JNull
  | JBool bool
  | JNum 'n
  | JNaN
  | JStr string
  | JDate "int option"
  | JArr "'n jsval list"
  | JObj "(string \<times> 'n jsval) list"

text \<open>
  The errors a handler passes to \<open>next\<close>: the two error classes of the repository,
  each with its message, and the errors raised by the JavaScript runtime or by the
  database driver, which the handlers forward unchanged.
\<close>

datatype error =
    BadRequestError string
  | NotFoundError string
  | TypeError
  | SyntaxError
  | CastError
  | MongoError

text \<open>The messages of the source are Russian; they are given here in English.\<close>

definition invalid_request :: error where
  "invalid_request = BadRequestError ''Invalid request''"

text \<open>\<open>typeof v === 'object' && v !== null\<close>\<close>

fun is_object :: "'n jsval \<Rightarrow> bool" where
  "is_object (JObj _) = True"
| "is_object (JArr _) = True"
| "is_object (JDate _) = True"
| "is_object _ = False"

text \<open>Truthiness, as \<open>if (v)\<close>, \<open>v && ...\<close> and \<open>v || ...\<close> read a value.\<close>

fun truthy :: "'n::zero jsval \<Rightarrow> bool" where
  "truthy JUndefined = False"
| "truthy JNull = False"
| "truthy (JBool b) = b"
| "truthy (JNum n) = (n \<noteq> 0)"
| "truthy JNaN = False"
| "truthy (JStr s) = (s \<noteq> [])"
| "truthy _ = True"

text \<open>\<open>s.startsWith('$')\<close>\<close>

definition startsWith_dollar :: "string \<Rightarrow> bool" where
  "startsWith_dollar s = (case s of [] \<Rightarrow> False | c # _ \<Rightarrow> c = CHR ''$'')"

text \<open>Property read \<open>obj[key]\<close> and property write \<open>obj[key] = v\<close> on a plain
  object: a write to an existing key keeps the key's position, a write to a new key
  appends it.\<close>

fun getProp :: "(string \<times> 'n jsval) list \<Rightarrow> string \<Rightarrow> 'n jsval" where
  "getProp [] k = JUndefined"
| "getProp ((k', v) # kvs) k = (if k' = k then v else getProp kvs k)"

fun setProp :: "(string \<times> 'v) list \<Rightarrow> string \<Rightarrow> 'v \<Rightarrow> (string \<times> 'v) list" where
  "setProp [] k v = [(k, v)]"
| "setProp ((k', v') # kvs) k v =
     (if k' = k then (k, v) # kvs else (k', v') # setProp kvs k v)"

text \<open>The decimal text of an array index, the key under which \<open>Object.entries\<close>
  reports an array element.\<close>

definition digit_char :: "nat \<Rightarrow> char" where
  "digit_char d = char_of (48 + d)"

function index_key :: "nat \<Rightarrow> string" where
  "index_key n = (if n < 10 then [digit_char n] else index_key (n div 10) @ [digit_char (n mod 10)])"
  by pat_completeness auto
termination
  by (relation "measure id") auto

declare index_key.simps [simp del]

section \<open>The search escaping of \<open>sanitizeSearch.ts\<close>\<close>

definition backslash :: char where
  "backslash = CHR 0x5C"

definition single_quote :: char where
  "single_quote = CHR 0x27"

definition double_quote :: char where
  "double_quote = CHR 0x22"

text \<open>The character class \<open>[.*+?^${}()|[\]\\]\<close> of the first replacement.\<close>

definition regex_metachars :: "char list" where
  "regex_metachars = ''.*+?^${}()|[]'' @ [backslash]"

text \<open>\<open>s.replace(/c/g, '\\c')\<close> for the characters \<open>c\<close> that satisfy \<open>P\<close>: every
  such character gets one backslash in front of it.\<close>

definition escape_chars :: "(char \<Rightarrow> bool) \<Rightarrow> string \<Rightarrow> string" where
  "escape_chars P s = concat (map (\<lambda>c. if P c then [backslash, c] else [c]) s)"

text \<open>The four replacements of \<open>sanitizeSearch\<close>, in the order of the source.\<close>

definition sanitizeSearch :: "string \<Rightarrow> string" where
  "sanitizeSearch input =
     escape_chars (\<lambda>c. c = double_quote)
       (escape_chars (\<lambda>c. c = single_quote)
         (escape_chars (\<lambda>c. c = backslash)
           (escape_chars (\<lambda>c. c \<in> set regex_metachars) input)))"

section \<open>The two recursive sanitizers\<close>

text \<open>
  \<open>sanitizeQueryParams\<close> walks \<open>Object.entries(query)\<close>. The entries of an object
  are its properties, those of an array its elements under their indices, those of a
  string its characters under their indices; a date, a number and a boolean have none;
  \<open>null\<close> and \<open>undefined\<close> make \<open>Object.entries\<close> throw a TypeError.
  The three functions below are the loop over the entries of an object
  (\<open>sanitizeQueryEntries\<close>), the same loop over the entries of an array, which
  counts the index (\<open>sanitizeQueryItems\<close>), and the function itself.
\<close>

function (sequential) sanitizeQueryParams :: "'n jsval \<Rightarrow> error + 'n jsval"
  and sanitizeQueryEntries ::
    "(string \<times> 'n jsval) list \<Rightarrow> (string \<times> 'n jsval) list \<Rightarrow> error + 'n jsval"
  and sanitizeQueryItems ::
    "nat \<Rightarrow> 'n jsval list \<Rightarrow> (string \<times> 'n jsval) list \<Rightarrow> error + 'n jsval"
where
  "sanitizeQueryParams (JObj kvs) = sanitizeQueryEntries kvs []"
| "sanitizeQueryParams (JArr xs) = sanitizeQueryItems 0 xs []"
| "sanitizeQueryParams (JStr s) =
     (if list_ex (\<lambda>c. c = CHR ''$'') s then Inl invalid_request
      else Inr (JObj (map (\<lambda>i. (index_key i, JStr (sanitizeSearch [s ! i]))) [0..<length s])))"
| "sanitizeQueryParams JUndefined = Inl TypeError"
| "sanitizeQueryParams JNull = Inl TypeError"
| "sanitizeQueryParams (JDate d) = Inr (JObj [])"
| "sanitizeQueryParams (JBool b) = Inr (JObj [])"
| "sanitizeQueryParams (JNum n) = Inr (JObj [])"
| "sanitizeQueryParams JNaN = Inr (JObj [])"
| "sanitizeQueryEntries [] acc = Inr (JObj acc)"
| "sanitizeQueryEntries ((key, value) # rest) acc =
     (case value of
        JStr s \<Rightarrow>
          if startsWith_dollar s then Inl invalid_request
          else sanitizeQueryEntries rest (setProp acc key (JStr (sanitizeSearch s)))
      | _ \<Rightarrow>
          if is_object value then
            (case sanitizeQueryParams value of
               Inl e \<Rightarrow> Inl e
             | Inr v \<Rightarrow> sanitizeQueryEntries rest (setProp acc key v))
          else sanitizeQueryEntries rest (setProp acc key value))"
| "sanitizeQueryItems i [] acc = Inr (JObj acc)"
| "sanitizeQueryItems i (value # rest) acc =
     (case value of
        JStr s \<Rightarrow>
          if startsWith_dollar s then Inl invalid_request
          else sanitizeQueryItems (Suc i) rest (setProp acc (index_key i) (JStr (sanitizeSearch s)))
      | _ \<Rightarrow>
          if is_object value then
            (case sanitizeQueryParams value of
               Inl e \<Rightarrow> Inl e
             | Inr v \<Rightarrow> sanitizeQueryItems (Suc i) rest (setProp acc (index_key i) v))
          else sanitizeQueryItems (Suc i) rest (setProp acc (index_key i) value))"
  by pat_completeness auto
termination
  by (relation "measure (\<lambda>x. case x of
         Inl v \<Rightarrow> size v
       | Inr (Inl (kvs, acc)) \<Rightarrow> size_list (size_prod (\<lambda>_. 0) size) kvs
       | Inr (Inr (i, xs, acc)) \<Rightarrow> size_list size xs)") auto

text \<open>
  \<open>sanitizeAggregationFilters\<close> returns a value that is falsy or not an object as
  it is. Otherwise it walks the entries, refusing a key and a string value that start with
  \<open>$\<close>, and after the loop refuses a result whose \<open>$expr\<close> or \<open>$function\<close>
  property is truthy (\<open>aggregationDirectives\<close>).
\<close>

definition aggregationDirectives :: "(string \<times> 'n::zero jsval) list \<Rightarrow> error + 'n jsval" where
  "aggregationDirectives sanitized =
     (if truthy (getProp sanitized ''$expr'') then Inl invalid_request
      else if truthy (getProp sanitized ''$function'') then Inl invalid_request
      else Inr (JObj sanitized))"

function (sequential) sanitizeAggregationFilters :: "'n::zero jsval \<Rightarrow> error + 'n jsval"
  and sanitizeAggregationEntries ::
    "(string \<times> 'n jsval) list \<Rightarrow> (string \<times> 'n jsval) list \<Rightarrow> error + 'n jsval"
  and sanitizeAggregationItems ::
    "nat \<Rightarrow> 'n jsval list \<Rightarrow> (string \<times> 'n jsval) list \<Rightarrow> error + 'n jsval"
where
  "sanitizeAggregationFilters (JObj kvs) = sanitizeAggregationEntries kvs []"
| "sanitizeAggregationFilters (JArr xs) = sanitizeAggregationItems 0 xs []"
| "sanitizeAggregationFilters (JDate d) = aggregationDirectives []"
| "sanitizeAggregationFilters (JStr s) = Inr (JStr s)"
| "sanitizeAggregationFilters JUndefined = Inr JUndefined"
| "sanitizeAggregationFilters JNull = Inr JNull"
| "sanitizeAggregationFilters (JBool b) = Inr (JBool b)"
| "sanitizeAggregationFilters (JNum n) = Inr (JNum n)"
| "sanitizeAggregationFilters JNaN = Inr JNaN"
| "sanitizeAggregationEntries [] acc = aggregationDirectives acc"
| "sanitizeAggregationEntries ((key, value) # rest) acc =
     (if startsWith_dollar key then Inl invalid_request
      else
        (case value of
           JStr s \<Rightarrow>
             if startsWith_dollar s then Inl invalid_request
             else sanitizeAggregationEntries rest (setProp acc key (JStr s))
         | _ \<Rightarrow>
             if is_object value then
               (case sanitizeAggregationFilters value of
                  Inl e \<Rightarrow> Inl e
                | Inr v \<Rightarrow> sanitizeAggregationEntries rest (setProp acc key v))
             else sanitizeAggregationEntries rest (setProp acc key value)))"
| "sanitizeAggregationItems i [] acc = aggregationDirectives acc"
| "sanitizeAggregationItems i (value # rest) acc =
     (if startsWith_dollar (index_key i) then Inl invalid_request
      else
        (case value of
           JStr s \<Rightarrow>
             if startsWith_dollar s then Inl invalid_request
             else sanitizeAggregationItems (Suc i) rest (setProp acc (index_key i) (JStr s))
         | _ \<Rightarrow>
             if is_object value then
               (case sanitizeAggregationFilters value of
                  Inl e \<Rightarrow> Inl e
                | Inr v \<Rightarrow> sanitizeAggregationItems (Suc i) rest (setProp acc (index_key i) v))
             else sanitizeAggregationItems (Suc i) rest (setProp acc (index_key i) value)))"
  by pat_completeness auto
termination
  by (relation "measure (\<lambda>x. case x of
         Inl v \<Rightarrow> size v
       | Inr (Inl (kvs, acc)) \<Rightarrow> size_list (size_prod (\<lambda>_. 0) size) kvs
       | Inr (Inr (i, xs, acc)) \<Rightarrow> size_list size xs)") auto


section \<open>The markup sanitizer of \<open>sanitizeHtml.ts\<close> and \<open>sanitizeOrder.ts\<close>\<close>

text \<open>
  \<open>cleanHtml\<close> calls the function of the package \<open>sanitize-html\<close> with a fixed
  options object. The package is not part of the repository: its function is a
  parameter of the model, which returns a string or throws (\<open>Inl\<close>; what the package
  does with a value that is no string depends on its version), and \<open>cleanHtml\<close> is
  that function applied to the options of the source.
\<close>

type_synonym attribs = "(string \<times> string) list"

record sanitize_options =
  allowedTags :: "string list"
  allowedAttributes :: "(string \<times> string list) list"
  transformTags :: "(string \<times> (string \<Rightarrow> attribs \<Rightarrow> string \<times> attribs)) list"

type_synonym 'n sanitize_html = "'n jsval \<Rightarrow> sanitize_options \<Rightarrow> error + string"

text \<open>The transformation of the tag \<open>a\<close>: \<open>{ ...attribs, rel: '...' }\<close>.\<close>

definition transform_a :: "string \<Rightarrow> attribs \<Rightarrow> string \<times> attribs" where
  "transform_a tagName attribs = (''a'', setProp attribs ''rel'' ''noopener noreferrer nofollow'')"

definition cleanHtml_options :: sanitize_options where
  "cleanHtml_options =
     \<lparr> allowedTags = [''p'', ''a''],
       allowedAttributes = [(''a'', [''href''])],
       transformTags = [(''a'', transform_a)] \<rparr>"

definition cleanHtml :: "'n sanitize_html \<Rightarrow> 'n jsval \<Rightarrow> error + string" where
  "cleanHtml sanitizeHtml checkedText = sanitizeHtml checkedText cleanHtml_options"

text \<open>\<open>s || ''\<close> for a string \<open>s\<close>.\<close>

definition or_empty :: "string \<Rightarrow> 'n::zero jsval" where
  "or_empty s = (if truthy (JStr s :: 'n jsval) then JStr s else JStr [])"

text \<open>
  \<open>sanitizeOrder\<close> takes the plain object of an order (\<open>order.toObject()\<close>, or the
  order itself when it is plain already) and returns a copy in which four properties are
  overwritten. The source passes \<open>orderObject.deliveryAddress\<close>, \<open>orderObject.email\<close>
  and \<open>orderObject.phone\<close> to \<open>cleanHtml\<close>, and for \<open>comment\<close> the object
  \<open>orderObject\<close> itself.
\<close>

definition sanitizeOrder ::
  "'n::zero sanitize_html \<Rightarrow> (string \<times> 'n jsval) list \<Rightarrow> error + (string \<times> 'n jsval) list" where
  "sanitizeOrder sanitizeHtml orderObject =
     (case cleanHtml sanitizeHtml (getProp orderObject ''deliveryAddress'') of
        Inl e \<Rightarrow> Inl e
      | Inr cleanAddress \<Rightarrow>
     (case cleanHtml sanitizeHtml (JObj orderObject) of
        Inl e \<Rightarrow> Inl e
      | Inr cleanComment \<Rightarrow>
     (case cleanHtml sanitizeHtml (getProp orderObject ''email'') of
        Inl e \<Rightarrow> Inl e
      | Inr cleanEmail \<Rightarrow>
     (case cleanHtml sanitizeHtml (getProp orderObject ''phone'') of
        Inl e \<Rightarrow> Inl e
      | Inr cleanPhone \<Rightarrow>
          Inr (setProp
                (setProp
                  (setProp
                    (setProp orderObject ''deliveryAddress'' (or_empty cleanAddress))
                    ''comment'' (or_empty cleanComment))
                  ''email'' (or_empty cleanEmail))
                ''phone'' (or_empty cleanPhone))))))"

text \<open>\<open>orders.map(sanitizeOrder)\<close>: the first exception ends the loop.\<close>

fun sanitizeOrders ::
  "'n::zero sanitize_html \<Rightarrow> (string \<times> 'n jsval) list list \<Rightarrow> error + 'n jsval list" where
  "sanitizeOrders sanitizeHtml [] = Inr []"
| "sanitizeOrders sanitizeHtml (orderObject # rest) =
     (case sanitizeOrder sanitizeHtml orderObject of
        Inl e \<Rightarrow> Inl e
      | Inr sanitized \<Rightarrow>
          (case sanitizeOrders sanitizeHtml rest of
             Inl e \<Rightarrow> Inl e
           | Inr sanitizedRest \<Rightarrow> Inr (JObj sanitized # sanitizedRest)))"

section \<open>The runtime and the document store\<close>

text \<open>
  The handlers call functions of the JavaScript runtime, of third-party packages and of
  the database whose results depend on no code of the repository. They are the fields of
  a record that every handler takes as its first argument:
  \<^item> \<open>sanitizeHtml\<close>: the function of the package \<open>sanitize-html\<close>, \<open>Inl\<close> when
    it throws;
  \<^item> \<open>regexCompiles p\<close>: \<open>new RegExp(p, 'i')\<close> does not throw a SyntaxError;
  \<^item> \<open>regexTest p s\<close>: the database matches the string \<open>s\<close> against that regular
    expression;
  \<^item> \<open>numberOfString s\<close>: \<open>Number(s)\<close> for a string, \<open>None\<close> when it is NaN;
  \<^item> \<open>dateParse s\<close>: the time value of \<open>new Date(s)\<close> for a string, \<open>None\<close> when
    the date is invalid;
  \<^item> \<open>isValidObjectId v\<close>: \<open>Types.ObjectId.isValid(v)\<close>;
  \<^item> \<open>objectIdEquals i v\<close>: \<open>x.equals(v)\<close> for the ObjectId \<open>x\<close> whose text is
    \<open>i\<close>;
  \<^item> \<open>sortKeyAccepted k\<close>: the database accepts the stage
    \<open>{ $sort: { [k]: 1 } }\<close>, which it does for a path of field names and does not
    for an empty key, among others;
  \<^item> \<open>validateOrder obj\<close>: the message of the ValidationError with which the schema
    refuses to save the order \<open>obj\<close>, \<open>None\<close> when it saves it.
\<close>

record 'n runtime =
  sanitizeHtml :: "'n sanitize_html"
  regexCompiles :: "string \<Rightarrow> bool"
  regexTest :: "string \<Rightarrow> string \<Rightarrow> bool"
  numberOfString :: "string \<Rightarrow> 'n option"
  dateParse :: "string \<Rightarrow> int option"
  isValidObjectId :: "'n jsval \<Rightarrow> bool"
  objectIdEquals :: "string \<Rightarrow> 'n jsval \<Rightarrow> bool"
  sortKeyAccepted :: "string \<Rightarrow> bool"
  validateOrder :: "(string \<times> 'n jsval) list \<Rightarrow> string option"

text \<open>
  The documents of the three collections, with the fields the handlers read. The
  references of an order (\<open>products\<close>, \<open>customer\<close>) are identifiers; a price is
  \<open>None\<close> when it is \<open>null\<close>; a text field of an order is \<open>None\<close> when the document
  does not have it.
\<close>

record 'n product =
  p_id :: string
  title :: string
  price :: "'n option"

record user =
  u_id :: string
  roles :: "string list"

record 'n order =
  o_id :: string
  orderNumber :: 'n
  status :: string
  totalAmount :: 'n
  products :: "string list"
  customer :: string
  createdAt :: int
  payment :: string
  deliveryAddress :: "string option"
  comment :: "string option"
  email :: "string option"
  phone :: "string option"

record 'n db =
  Order_docs :: "'n order list"
  Product_docs :: "'n product list"
  User_docs :: "user list"

definition Role_Admin :: string where
  "Role_Admin = ''admin''"

text \<open>\<open>user.roles.includes(Role.Admin)\<close>\<close>

definition isAdmin :: "user \<Rightarrow> bool" where
  "isAdmin u = list_ex (\<lambda>r. r = Role_Admin) (roles u)"

subsection \<open>Population of references\<close>

text \<open>
  \<open>populate('products')\<close> replaces the identifiers of the array by the documents they
  name, in the order of the array, and leaves out an identifier that names no document;
  \<open>populate('customer')\<close> replaces the identifier by the document, or by \<open>null\<close>.
\<close>

definition populate_products :: "'n db \<Rightarrow> 'n order \<Rightarrow> 'n product list" where
  "populate_products d ord =
     List.map_filter (\<lambda>i. find (\<lambda>p. p_id p = i) (Product_docs d)) (products ord)"

definition populate_customer :: "'n db \<Rightarrow> 'n order \<Rightarrow> user option" where
  "populate_customer d ord = find (\<lambda>u. u_id u = customer ord) (User_docs d)"

subsection \<open>Documents as plain objects\<close>

definition product_toObject :: "'n product \<Rightarrow> 'n jsval" where
  "product_toObject p =
     JObj [(''_id'', JStr (p_id p)), (''title'', JStr (title p)),
           (''price'', case price p of None \<Rightarrow> JNull | Some x \<Rightarrow> JNum x)]"

definition user_toObject :: "user \<Rightarrow> 'n jsval" where
  "user_toObject u = JObj [(''_id'', JStr (u_id u)), (''roles'', JArr (map JStr (roles u)))]"

definition optional_field :: "string \<Rightarrow> string option \<Rightarrow> (string \<times> 'n jsval) list" where
  "optional_field k v = (case v of None \<Rightarrow> [] | Some s \<Rightarrow> [(k, JStr s)])"

text \<open>The plain object of an order whose \<open>products\<close> and \<open>customer\<close> properties hold
  the values \<open>ps\<close> and \<open>c\<close>.\<close>

definition order_toObject :: "'n order \<Rightarrow> 'n jsval \<Rightarrow> 'n jsval \<Rightarrow> (string \<times> 'n jsval) list" where
  "order_toObject ord ps c =
     [(''_id'', JStr (o_id ord)), (''orderNumber'', JNum (orderNumber ord)),
      (''status'', JStr (status ord)), (''totalAmount'', JNum (totalAmount ord)),
      (''products'', ps), (''customer'', c), (''createdAt'', JDate (Some (createdAt ord))),
      (''payment'', JStr (payment ord))]
     @ optional_field ''deliveryAddress'' (deliveryAddress ord)
     @ optional_field ''comment'' (comment ord)
     @ optional_field ''email'' (email ord)
     @ optional_field ''phone'' (phone ord)"

text \<open>An order after \<open>populate(['customer', 'products'])\<close> and after
  \<open>populate('products')\<close>.\<close>

definition populated_order :: "'n db \<Rightarrow> 'n order \<Rightarrow> (string \<times> 'n jsval) list" where
  "populated_order d ord =
     order_toObject ord (JArr (map product_toObject (populate_products d ord)))
       (case populate_customer d ord of None \<Rightarrow> JNull | Some u \<Rightarrow> user_toObject u)"

definition order_with_products :: "'n db \<Rightarrow> 'n order \<Rightarrow> (string \<times> 'n jsval) list" where
  "order_with_products d ord =
     order_toObject ord (JArr (map product_toObject (populate_products d ord)))
       (JStr (customer ord))"

subsection \<open>Queries\<close>

text \<open>
  \<open>find(filter).skip(k).limit(m)\<close> on the documents \<open>xs\<close> that match the filter: the
  server refuses a negative skip; the driver sends a negative limit as its absolute
  value, and a limit of zero is no limit.
\<close>

definition skip_limit :: "int \<Rightarrow> int \<Rightarrow> 'a list \<Rightarrow> error + 'a list" where
  "skip_limit k m xs =
     (if k < 0 then Inl MongoError
      else if m = 0 then Inr (drop (nat k) xs)
      else Inr (take (nat \<bar>m\<bar>) (drop (nat k) xs)))"

text \<open>\<open>xs.slice(a, b)\<close>: a negative index counts from the end.\<close>

definition slice :: "'a list \<Rightarrow> int \<Rightarrow> int \<Rightarrow> 'a list" where
  "slice xs a b =
     (let n = int (length xs);
          from = (if a < 0 then max (n + a) 0 else min a n);
          to = (if b < 0 then max (n + b) 0 else min b n)
      in take (nat (to - from)) (drop (nat from) xs))"

section \<open>Page and limit\<close>

text \<open>
  White space, as \<open>parseInt\<close> and \<open>trim\<close> strip it: the characters U+0009 to
  U+000D, U+0020, U+00A0, U+1680, U+2000 to U+200A, U+2028, U+2029, U+202F, U+205F,
  U+3000 and U+FEFF, each in its UTF-8 encoding.
\<close>

definition white_space :: "string list" where
  "white_space =
     [[CHR 0x09], [CHR 0x0A], [CHR 0x0B], [CHR 0x0C], [CHR 0x0D], [CHR 0x20],
      [CHR 0xC2, CHR 0xA0],
      [CHR 0xE1, CHR 0x9A, CHR 0x80],
      [CHR 0xE2, CHR 0x80, CHR 0x80], [CHR 0xE2, CHR 0x80, CHR 0x81],
      [CHR 0xE2, CHR 0x80, CHR 0x82], [CHR 0xE2, CHR 0x80, CHR 0x83],
      [CHR 0xE2, CHR 0x80, CHR 0x84], [CHR 0xE2, CHR 0x80, CHR 0x85],
      [CHR 0xE2, CHR 0x80, CHR 0x86], [CHR 0xE2, CHR 0x80, CHR 0x87],
      [CHR 0xE2, CHR 0x80, CHR 0x88], [CHR 0xE2, CHR 0x80, CHR 0x89],
      [CHR 0xE2, CHR 0x80, CHR 0x8A],
      [CHR 0xE2, CHR 0x80, CHR 0xA8], [CHR 0xE2, CHR 0x80, CHR 0xA9],
      [CHR 0xE2, CHR 0x80, CHR 0xAF],
      [CHR 0xE2, CHR 0x81, CHR 0x9F],
      [CHR 0xE3, CHR 0x80, CHR 0x80],
      [CHR 0xEF, CHR 0xBB, CHR 0xBF]]"

text \<open>The number of bytes of the sequence of \<open>ws\<close> with which \<open>s\<close> starts, 0 when
  it starts with none; and \<open>s\<close> without the sequences of \<open>ws\<close> at its start.\<close>

definition leading :: "string list \<Rightarrow> string \<Rightarrow> nat" where
  "leading ws s = (case find (\<lambda>w. prefix w s) ws of None \<Rightarrow> 0 | Some w \<Rightarrow> length w)"

function strip_leading :: "string list \<Rightarrow> string \<Rightarrow> string" where
  "strip_leading ws s =
     (if leading ws s = 0 then s else strip_leading ws (drop (leading ws s) s))"
  by pat_completeness auto
termination
proof (relation "measure (\<lambda>(ws, s). length s)")
  fix ws s
  assume "leading ws s \<noteq> 0"
  then obtain w where "find (\<lambda>w. prefix w s) ws = Some w" and "w \<noteq> []"
    by (auto simp: leading_def split: option.splits)
  then have "prefix w s"
    by (auto simp: find_Some_iff)
  with \<open>w \<noteq> []\<close> have "s \<noteq> []"
    by auto
  with \<open>leading ws s \<noteq> 0\<close>
  show "((ws, drop (leading ws s) s), (ws, s)) \<in> measure (\<lambda>(ws, s). length s)"
    by simp
qed simp

declare strip_leading.simps [simp del]

text \<open>
  \<open>parseInt\<close> on a string: white space is skipped, then a sign, then the prefix
  \<open>0x\<close> selects radix 16, then the longest run of digits is read; NaN (\<open>None\<close>) when
  there is no digit. The result is an integer; the rounding of integers beyond
  \<open>2^53\<close> is not modelled.
\<close>

definition digit_of :: "nat \<Rightarrow> char \<Rightarrow> nat option" where
  "digit_of radix c =
     (let n = (of_char c :: nat);
          v = (if 48 \<le> n \<and> n \<le> 57 then Some (n - 48)
               else if 97 \<le> n \<and> n \<le> 122 then Some (n - 87)
               else if 65 \<le> n \<and> n \<le> 90 then Some (n - 55)
               else None)
      in case v of None \<Rightarrow> None | Some d \<Rightarrow> if d < radix then Some d else None)"

fun digits_prefix :: "nat \<Rightarrow> string \<Rightarrow> nat list" where
  "digits_prefix radix [] = []"
| "digits_prefix radix (c # cs) =
     (case digit_of radix c of None \<Rightarrow> [] | Some d \<Rightarrow> d # digits_prefix radix cs)"

definition strip_sign :: "string \<Rightarrow> bool \<times> string" where
  "strip_sign s =
     (case s of
        [] \<Rightarrow> (False, [])
      | c # cs \<Rightarrow> if c = CHR ''-'' then (True, cs) else if c = CHR ''+'' then (False, cs) else (False, s))"

definition strip_hex_prefix :: "string \<Rightarrow> nat \<times> string" where
  "strip_hex_prefix s =
     (case s of
        a # b # cs \<Rightarrow> if a = CHR ''0'' \<and> (b = CHR ''x'' \<or> b = CHR ''X'') then (16, cs) else (10, s)
      | _ \<Rightarrow> (10, s))"

definition parseInt_string :: "string \<Rightarrow> int option" where
  "parseInt_string s =
     (let (negative, s1) = strip_sign (strip_leading white_space s);
          (radix, s2) = strip_hex_prefix s1;
          ds = digits_prefix radix s2
      in if ds = [] then None
         else Some ((if negative then - 1 else 1) * int (foldl (\<lambda>a d. a * radix + d) 0 ds)))"

text \<open>
  \<open>parseInt(v)\<close> for a value of the parsed query string, which holds strings, arrays
  and objects: the text of an array starts with the text of its first element, followed
  by a comma, so \<open>parseInt\<close> reads the first element; the text of an object and the
  text \<open>undefined\<close> of an absent parameter give NaN. (A number, which a parsed query
  string cannot hold, is given NaN as well.)
\<close>

fun parseInt :: "'n jsval \<Rightarrow> int option" where
  "parseInt (JStr s) = parseInt_string s"
| "parseInt (JArr (x # xs)) = parseInt x"
| "parseInt _ = None"

text \<open>\<open>Math.max(1, parseInt(req.query.page) || 1)\<close> and
  \<open>Math.min(10, parseInt(req.query.limit) || 10)\<close>: NaN and 0 are falsy.\<close>

definition or_default :: "int option \<Rightarrow> int \<Rightarrow> int" where
  "or_default x d = (case x of None \<Rightarrow> d | Some n \<Rightarrow> if n = 0 then d else n)"

definition page_of :: "(string \<times> 'n jsval) list \<Rightarrow> int" where
  "page_of query = max 1 (or_default (parseInt (getProp query ''page'')) 1)"

definition limit_of :: "(string \<times> 'n jsval) list \<Rightarrow> int" where
  "limit_of query = min 10 (or_default (parseInt (getProp query ''limit'')) 10)"

text \<open>\<open>Math.ceil(n / m)\<close>; the handlers call it with a limit \<open>m\<close>, which is never 0.\<close>

definition ceil_div :: "int \<Rightarrow> int \<Rightarrow> int" where
  "ceil_div n m = ceiling ((of_int n :: real) / of_int m)"

record pagination =
  totalOrders :: int
  totalPages :: int
  currentPage :: int
  pageSize :: int

record 'n orders_response =
  orders :: "'n jsval list"
  pagination :: pagination

section \<open>The order listing \<open>getOrders\<close>\<close>

subsection \<open>The filter object and its meaning in the database\<close>

text \<open>The own properties of an object value, for the spread \<open>{ ...v }\<close> of an object
  or of \<open>undefined\<close> and for reading the properties of the sanitized query.\<close>

fun props_of :: "'n jsval \<Rightarrow> (string \<times> 'n jsval) list" where
  "props_of (JObj kvs) = kvs"
| "props_of _ = []"

text \<open>\<open>Number(v)\<close> and \<open>new Date(v)\<close> for a truthy value of the sanitized query,
  which is a string or an object. The number of an object is NaN (the TypeError for an
  object whose own \<open>valueOf\<close> and \<open>toString\<close> properties are no functions is not
  modelled).\<close>

definition Number_js :: "'n runtime \<Rightarrow> 'n jsval \<Rightarrow> 'n jsval" where
  "Number_js rt v =
     (case v of
        JStr s \<Rightarrow> (case numberOfString rt s of None \<Rightarrow> JNaN | Some n \<Rightarrow> JNum n)
      | JNum n \<Rightarrow> JNum n
      | _ \<Rightarrow> JNaN)"

definition Date_js :: "'n runtime \<Rightarrow> string \<Rightarrow> 'n jsval" where
  "Date_js rt s = JDate (dateParse rt s)"

definition validStatuses :: "string list" where
  "validStatuses = [''new'', ''completed'', ''cancelled'', ''delivering'']"

text \<open>\<open>filters[k] = { ...filters[k], [op]: b }\<close>\<close>

definition add_bound ::
  "(string \<times> 'n jsval) list \<Rightarrow> string \<Rightarrow> string \<Rightarrow> 'n jsval \<Rightarrow> (string \<times> 'n jsval) list" where
  "add_bound filters k op b = setProp filters k (JObj (setProp (props_of (getProp filters k)) op b))"

text \<open>The filter object that the admin branch of \<open>getOrders\<close> builds from the
  sanitized query, statement by statement.\<close>

definition order_filters :: "'n::zero runtime \<Rightarrow> (string \<times> 'n jsval) list \<Rightarrow> (string \<times> 'n jsval) list" where
  "order_filters rt safeQuery =
     (let status = getProp safeQuery ''status'';
          totalAmountFrom = getProp safeQuery ''totalAmountFrom'';
          totalAmountTo = getProp safeQuery ''totalAmountTo'';
          orderDateFrom = getProp safeQuery ''orderDateFrom'';
          orderDateTo = getProp safeQuery ''orderDateTo'';
          f0 = [];
          f1 = (case status of
                  JStr s \<Rightarrow> if s \<noteq> [] \<and> s \<in> set validStatuses then setProp f0 ''status'' (JStr s) else f0
                | _ \<Rightarrow> f0);
          f2 = (if truthy totalAmountFrom
                then add_bound f1 ''totalAmount'' ''$gte'' (Number_js rt totalAmountFrom) else f1);
          f3 = (if truthy totalAmountTo
                then add_bound f2 ''totalAmount'' ''$lte'' (Number_js rt totalAmountTo) else f2);
          f4 = (case orderDateFrom of
                  JStr s \<Rightarrow> if s \<noteq> [] then add_bound f3 ''createdAt'' ''$gte'' (Date_js rt s) else f3
                | _ \<Rightarrow> f3);
          f5 = (case orderDateTo of
                  JStr s \<Rightarrow> if s \<noteq> [] then add_bound f4 ''createdAt'' ''$lte'' (Date_js rt s) else f4
                | _ \<Rightarrow> f4)
      in f5)"

text \<open>
  The meaning of a filter object for an order document: every property of the filter
  must hold. \<open>status\<close> and \<open>customer\<close> are equalities; \<open>totalAmount\<close> and
  \<open>createdAt\<close> are ranges with the inclusive bounds \<open>$gte\<close> and \<open>$lte\<close>, and a
  bound that is NaN or an invalid date holds for no document. The handlers build no
  other filter.
\<close>

definition bound_le :: "'n::ord jsval \<Rightarrow> 'n jsval \<Rightarrow> bool" where
  "bound_le x y =
     (case (x, y) of
        (JNum a, JNum b) \<Rightarrow> a \<le> b
      | (JDate (Some a), JDate (Some b)) \<Rightarrow> a \<le> b
      | _ \<Rightarrow> False)"

definition range_holds :: "'n::ord jsval \<Rightarrow> 'n jsval \<Rightarrow> bool" where
  "range_holds x bounds_object =
     (case bounds_object of
        JObj bounds \<Rightarrow>
          list_all (\<lambda>(op, b). if op = ''$gte'' then bound_le b x
                               else if op = ''$lte'' then bound_le x b else False) bounds
      | _ \<Rightarrow> False)"

definition order_field_matches :: "'n::ord order \<Rightarrow> string \<times> 'n jsval \<Rightarrow> bool" where
  "order_field_matches ord kv =
     (let k = fst kv; v = snd kv
      in if k = ''status'' then v = JStr (status ord)
         else if k = ''customer'' then v = JStr (customer ord)
         else if k = ''totalAmount'' then range_holds (JNum (totalAmount ord)) v
         else if k = ''createdAt'' then range_holds (JDate (Some (createdAt ord))) v
         else False)"

definition order_matches :: "(string \<times> 'n::ord jsval) list \<Rightarrow> 'n order \<Rightarrow> bool" where
  "order_matches filters ord = list_all (order_field_matches ord) filters"

subsection \<open>The search predicates\<close>

text \<open>
  The filter function of the in-memory search: \<open>productIds\<close> are the identifiers of the
  products whose title matches the regular expression; an order is kept when one of its
  populated products has one of these identifiers or when its number is the search
  number.
\<close>

definition title_matches :: "'n runtime \<Rightarrow> string \<Rightarrow> 'n product \<Rightarrow> bool" where
  "title_matches rt searchRegex p = regexTest rt searchRegex (title p)"

definition matchesOrderNumber :: "'n option \<Rightarrow> 'n order \<Rightarrow> bool" where
  "matchesOrderNumber searchNumber ord =
     (searchNumber \<noteq> None \<and> Some (orderNumber ord) = searchNumber)"

definition matchesProduct :: "'n db \<Rightarrow> string list \<Rightarrow> 'n order \<Rightarrow> bool" where
  "matchesProduct d productIds ord =
     list_ex (\<lambda>product. list_ex (\<lambda>i. i = p_id product) productIds) (populate_products d ord)"

definition search_orders :: "'n runtime \<Rightarrow> 'n db \<Rightarrow> string \<Rightarrow> 'n option \<Rightarrow> 'n order list \<Rightarrow> 'n order list" where
  "search_orders rt d searchRegex searchNumber userOrders =
     (let productIds = map p_id (filter (title_matches rt searchRegex) (Product_docs d))
      in filter (\<lambda>ord. matchesProduct d productIds ord \<or> matchesOrderNumber searchNumber ord)
           userOrders)"

subsection \<open>The aggregation pipeline\<close>

text \<open>
  After the two \<open>$lookup\<close> stages an order carries the list of the products whose
  identifier is among its references and the list of the users whose identifier is its
  customer. The two \<open>$unwind\<close> stages turn it into one row for every pair of a
  customer and a product of these lists, and into no row when one of them is empty.
\<close>

record 'n row =
  row_order :: "'n order"
  row_customer :: user
  row_products :: "'n product"

definition lookup_products :: "'n db \<Rightarrow> 'n order \<Rightarrow> 'n product list" where
  "lookup_products d ord =
     filter (\<lambda>p. list_ex (\<lambda>i. i = p_id p) (products ord)) (Product_docs d)"

definition lookup_customer :: "'n db \<Rightarrow> 'n order \<Rightarrow> user list" where
  "lookup_customer d ord = filter (\<lambda>u. u_id u = customer ord) (User_docs d)"

definition unwind :: "'n db \<Rightarrow> 'n order \<Rightarrow> 'n row list" where
  "unwind d ord =
     concat (map (\<lambda>c. map (\<lambda>p. \<lparr> row_order = ord, row_customer = c, row_products = p \<rparr>)
                         (lookup_products d ord))
                 (lookup_customer d ord))"

text \<open>The stage \<open>{ $match: { $or: [{ 'products.title': searchRegex },
  { orderNumber: searchNumber }] } }\<close>, whose second condition is there when the search
  number is not NaN.\<close>

definition search_rows :: "'n runtime \<Rightarrow> string \<Rightarrow> 'n option \<Rightarrow> 'n row list \<Rightarrow> 'n row list" where
  "search_rows rt searchRegex searchNumber rows =
     filter (\<lambda>r. title_matches rt searchRegex (row_products r)
                \<or> matchesOrderNumber searchNumber (row_order r)) rows"

text \<open>
  The stage \<open>$sort\<close> with one key. The key is a path into the row; values are compared
  in the order of the database: absent and null first, then numbers (NaN below every
  number), strings, objects, arrays, booleans, dates. Rows with equal keys keep their
  order; for the direction \<open>-1\<close> the sorted list is reversed.
\<close>

fun split_dots :: "string \<Rightarrow> string list" where
  "split_dots [] = [[]]"
| "split_dots (c # cs) =
     (if c = CHR ''.'' then [] # split_dots cs
      else (case split_dots cs of [] \<Rightarrow> [[c]] | w # ws \<Rightarrow> (c # w) # ws))"

fun get_path :: "string list \<Rightarrow> 'n jsval \<Rightarrow> 'n jsval" where
  "get_path [] v = v"
| "get_path (k # ks) v = (case v of JObj kvs \<Rightarrow> get_path ks (getProp kvs k) | _ \<Rightarrow> JUndefined)"

definition row_toObject :: "'n row \<Rightarrow> 'n jsval" where
  "row_toObject r =
     JObj (order_toObject (row_order r) (product_toObject (row_products r))
            (user_toObject (row_customer r)))"

definition bson_key :: "'n::zero jsval \<Rightarrow> nat \<times> 'n \<times> int \<times> string" where
  "bson_key v =
     (case v of
        JUndefined \<Rightarrow> (0, 0, 0, [])
      | JNull \<Rightarrow> (0, 0, 0, [])
      | JNaN \<Rightarrow> (1, 0, 0, [])
      | JNum n \<Rightarrow> (2, n, 0, [])
      | JStr s \<Rightarrow> (3, 0, 0, s)
      | JObj kvs \<Rightarrow> (4, 0, 0, [])
      | JArr xs \<Rightarrow> (5, 0, 0, [])
      | JBool b \<Rightarrow> (6, 0, if b then 1 else 0, [])
      | JDate t \<Rightarrow> (7, 0, case t of None \<Rightarrow> 0 | Some x \<Rightarrow> x, []))"

definition sort_rows :: "string \<Rightarrow> int \<Rightarrow> 'n::{zero,linorder} row list \<Rightarrow> 'n row list" where
  "sort_rows k direction rows =
     (let sorted_rows = sort_key (\<lambda>r. bson_key (get_path (split_dots k) (row_toObject r))) rows
      in if direction = 1 then sorted_rows else rev sorted_rows)"

text \<open>The stages \<open>$skip\<close> and \<open>$limit\<close>: the server refuses a skip that is
  negative or no 64-bit integer, and a limit that is not positive (the limit of the
  handler is at most 10).\<close>

definition aggregate_skip_limit :: "int \<Rightarrow> int \<Rightarrow> 'a list \<Rightarrow> error + 'a list" where
  "aggregate_skip_limit k m xs =
     (if k < 0 \<or> 2 ^ 63 \<le> k \<or> m \<le> 0 then Inl MongoError
      else Inr (take (nat m) (drop (nat k) xs)))"

text \<open>
  The stage \<open>$group\<close> by \<open>_id\<close>: one document for every order that has a row, with
  the fields of its first row and the products of all its rows.
\<close>

definition same_order :: "'n row \<Rightarrow> 'n row \<Rightarrow> bool" where
  "same_order r r' = (o_id (row_order r') = o_id (row_order r))"

definition grouped_doc :: "'n row \<Rightarrow> 'n row list \<Rightarrow> (string \<times> 'n jsval) list" where
  "grouped_doc r rs =
     [(''_id'', JStr (o_id (row_order r))),
      (''orderNumber'', JNum (orderNumber (row_order r))),
      (''status'', JStr (status (row_order r))),
      (''totalAmount'', JNum (totalAmount (row_order r))),
      (''products'', JArr (map (\<lambda>x. product_toObject (row_products x)) rs)),
      (''customer'', user_toObject (row_customer r)),
      (''createdAt'', JDate (Some (createdAt (row_order r))))]"

function group_rows :: "'n row list \<Rightarrow> (string \<times> 'n jsval) list list" where
  "group_rows [] = []"
| "group_rows (r # rs) =
     grouped_doc r (r # filter (same_order r) rs)
       # group_rows (filter (\<lambda>x. \<not> same_order r x) rs)"
  by pat_completeness auto
termination
  by (relation "measure length") (auto simp: less_Suc_eq_le)

subsection \<open>The handler\<close>

text \<open>
  The branch of \<open>getOrders\<close> for a requester who is not an admin: the filter is
  \<open>{ customer: user._id }\<close>. With a search term the orders of the requester are
  loaded, filtered in memory and sliced; without one the database skips and limits.
\<close>

definition getOrders_customer ::
  "'n::{zero,linorder} runtime \<Rightarrow> 'n db \<Rightarrow> user \<Rightarrow> (string \<times> 'n jsval) list \<Rightarrow> string \<Rightarrow> string
     \<Rightarrow> 'n option \<Rightarrow> error + 'n orders_response" where
  "getOrders_customer rt d usr query searchTerm searchRegex searchNumber =
     (let page = page_of query;
          limit = limit_of query;
          userFilters = [(''customer'', JStr (u_id usr))];
          userOrders = filter (order_matches userFilters) (Order_docs d)
      in if searchTerm \<noteq> [] then
           (let filteredOrders = search_orders rt d searchRegex searchNumber userOrders;
                totalOrders = int (length filteredOrders);
                totalPages = ceil_div totalOrders limit;
                pageOrders = slice filteredOrders ((page - 1) * limit) (page * limit)
            in case sanitizeOrders (sanitizeHtml rt) (map (order_with_products d) pageOrders) of
                 Inl e \<Rightarrow> Inl e
               | Inr sanitizedOrders \<Rightarrow>
                   Inr \<lparr> orders = sanitizedOrders,
                         pagination = \<lparr> totalOrders = totalOrders, totalPages = totalPages,
                                        currentPage = page, pageSize = limit \<rparr> \<rparr>)
         else
           (case skip_limit ((page - 1) * limit) limit userOrders of
              Inl e \<Rightarrow> Inl e
            | Inr pageOrders \<Rightarrow>
                (let totalOrders = int (length userOrders);
                     totalPages = ceil_div totalOrders limit
                 in case sanitizeOrders (sanitizeHtml rt) (map (populated_order d) pageOrders) of
                      Inl e \<Rightarrow> Inl e
                    | Inr sanitizedOrders \<Rightarrow>
                        Inr \<lparr> orders = sanitizedOrders,
                              pagination = \<lparr> totalOrders = totalOrders, totalPages = totalPages,
                                             currentPage = page, pageSize = limit \<rparr> \<rparr>)))"

text \<open>The default of a destructuring, \<open>const { sortField = 'createdAt' } = safeQuery\<close>:
  it replaces \<open>undefined\<close> only.\<close>

definition with_default :: "'n jsval \<Rightarrow> 'n jsval \<Rightarrow> 'n jsval" where
  "with_default v dflt = (case v of JUndefined \<Rightarrow> dflt | _ \<Rightarrow> v)"

text \<open>
  The branch for an admin: the filter object is built from the sanitized query and
  passed through \<open>sanitizeAggregationFilters\<close>; the pipeline matches, looks up,
  unwinds, searches, sorts, skips, limits and groups; the total is the number of the
  orders that match the filter object. A \<open>$sort\<close> stage without a key, which the
  handler builds when \<open>sortField\<close> or \<open>sortOrder\<close> is falsy, is refused by the
  server, and so is one with a key that the server does not accept.
\<close>

definition getOrders_admin ::
  "'n::{zero,linorder} runtime \<Rightarrow> 'n db \<Rightarrow> (string \<times> 'n jsval) list \<Rightarrow> (string \<times> 'n jsval) list
     \<Rightarrow> string \<Rightarrow> string \<Rightarrow> 'n option \<Rightarrow> error + 'n orders_response" where
  "getOrders_admin rt d query safeQuery searchTerm searchRegex searchNumber =
     (let page = page_of query;
          limit = limit_of query;
          sortField = with_default (getProp safeQuery ''sortField'') (JStr ''createdAt'');
          sortOrder = with_default (getProp safeQuery ''sortOrder'') (JStr ''desc'');
          filters = order_filters rt safeQuery
      in case sanitizeAggregationFilters (JObj filters) of
           Inl e \<Rightarrow> Inl e
         | Inr safeFilters \<Rightarrow>
             (let matched = filter (order_matches (props_of safeFilters)) (Order_docs d);
                  unwound = concat (map (unwind d) matched);
                  searched = (if searchTerm \<noteq> [] then search_rows rt searchRegex searchNumber unwound
                              else unwound)
              in if \<not> (truthy sortField \<and> truthy sortOrder) then Inl MongoError
                 else
                   (case cleanHtml (sanitizeHtml rt) sortField of
                      Inl e \<Rightarrow> Inl e
                    | Inr safeSortField \<Rightarrow>
                        (let sorted_rows = sort_rows safeSortField
                                             (if sortOrder = JStr ''desc'' then - 1 else 1) searched
                         in case (if sortKeyAccepted rt safeSortField
                                  then aggregate_skip_limit ((page - 1) * limit) limit sorted_rows
                                  else Inl MongoError) of
                              Inl e \<Rightarrow> Inl e
                            | Inr pageRows \<Rightarrow>
                                (let totalOrders = int (length (filter (order_matches filters)
                                                                  (Order_docs d)));
                                     totalPages = ceil_div totalOrders limit
                                 in case sanitizeOrders (sanitizeHtml rt) (group_rows pageRows) of
                                      Inl e \<Rightarrow> Inl e
                                    | Inr sanitizedOrders \<Rightarrow>
                                        Inr \<lparr> orders = sanitizedOrders,
                                              pagination =
                                                \<lparr> totalOrders = totalOrders, totalPages = totalPages,
                                                  currentPage = page, pageSize = limit \<rparr> \<rparr>)))))"

text \<open>
  \<open>getOrders\<close>: the query is sanitized; \<open>sanitizeSearch\<close> is applied to the
  \<open>search\<close> property of the sanitized query, which throws a TypeError when the
  property is not a string (when the query has no search parameter, too); the regular
  expression is built, which throws a SyntaxError for an invalid pattern; then the role
  of the requester selects the branch.
\<close>

definition getOrders ::
  "'n::{zero,linorder} runtime \<Rightarrow> 'n db \<Rightarrow> user \<Rightarrow> (string \<times> 'n jsval) list
     \<Rightarrow> error + 'n orders_response" where
  "getOrders rt d usr query =
     (case sanitizeQueryParams (JObj query) of
        Inl e \<Rightarrow> Inl e
      | Inr safeQuery \<Rightarrow>
          (case getProp (props_of safeQuery) ''search'' of
             JStr searchTerm \<Rightarrow>
               (let safeSearch = sanitizeSearch searchTerm
                in if \<not> regexCompiles rt safeSearch then Inl SyntaxError
                   else
                     (let searchNumber = numberOfString rt safeSearch
                      in if \<not> isAdmin usr
                         then getOrders_customer rt d usr query searchTerm safeSearch searchNumber
                         else getOrders_admin rt d query (props_of safeQuery) searchTerm safeSearch
                                searchNumber))
           | _ \<Rightarrow> Inl TypeError))"

section \<open>The handlers for one record\<close>

definition order_not_found :: error where
  "order_not_found = NotFoundError ''No order with the given id in the database''"

definition user_not_found :: error where
  "user_not_found = NotFoundError ''User not found''"

text \<open>
  \<open>getOrderCurrentUserByNumber\<close>: the order is looked up by its number and its
  customer is populated; \<open>order.customer._id\<close> throws a TypeError when the populated
  customer is \<open>null\<close>, that is when no user has the identifier the order refers to.
\<close>

definition getOrderCurrentUserByNumber ::
  "'n::zero runtime \<Rightarrow> 'n db \<Rightarrow> user \<Rightarrow> string \<Rightarrow> error + 'n jsval" where
  "getOrderCurrentUserByNumber rt d usr orderNumberParam =
     (let userId = u_id usr
      in case numberOfString rt orderNumberParam of
           None \<Rightarrow> Inl (BadRequestError ''Invalid order number'')
         | Some n \<Rightarrow>
             (case find (\<lambda>ord. orderNumber ord = n) (Order_docs d) of
                None \<Rightarrow> Inl order_not_found
              | Some ord \<Rightarrow>
                  (case populate_customer d ord of
                     None \<Rightarrow> Inl TypeError
                   | Some c \<Rightarrow>
                       if u_id c \<noteq> userId then Inl order_not_found
                       else
                         (case sanitizeOrder (sanitizeHtml rt) (populated_order d ord) of
                            Inl e \<Rightarrow> Inl e
                          | Inr sanitized \<Rightarrow> Inr (JObj sanitized)))))"

text \<open>
  \<open>getCustomerById\<close>: the identifier is read from the sanitized route parameters and
  compared with the text of the requester's identifier; the user is then looked up with
  the raw parameter, which the database layer refuses with a CastError when it is no
  ObjectId.
\<close>

definition getCustomerById ::
  "'n runtime \<Rightarrow> 'n db \<Rightarrow> user \<Rightarrow> (string \<times> 'n jsval) list \<Rightarrow> error + 'n jsval" where
  "getCustomerById rt d userLocal params =
     (case sanitizeQueryParams (JObj params) of
        Inl e \<Rightarrow> Inl e
      | Inr safeParams \<Rightarrow>
          (let id = getProp (props_of safeParams) ''id''
           in if \<not> isValidObjectId rt id then Inl (NotFoundError ''Invalid user ID'')
              else if \<not> isAdmin userLocal \<and> JStr (u_id userLocal) \<noteq> id then Inl user_not_found
              else if \<not> isValidObjectId rt (getProp params ''id'') then Inl CastError
              else
                (case find (\<lambda>u. objectIdEquals rt (u_id u) (getProp params ''id'')) (User_docs d) of
                   None \<Rightarrow> Inl user_not_found
                 | Some u \<Rightarrow> Inr (user_toObject u))))"

section \<open>Order creation\<close>

text \<open>
  The part that the two versions of \<open>createOrder\<close> share: the items are validated,
  the basket is filled with the products they name, its sum is compared with the total
  by \<open>!==\<close>, and the order is built, saved and returned through \<open>respond\<close>.
\<close>

fun fill_basket ::
  "'n runtime \<Rightarrow> 'n product list \<Rightarrow> 'n jsval list \<Rightarrow> 'n product list \<Rightarrow> error + 'n product list" where
  "fill_basket rt ps [] basket = Inr basket"
| "fill_basket rt ps (i # ids) basket =
     (case find (\<lambda>p. objectIdEquals rt (p_id p) i) ps of
        None \<Rightarrow> Inl (BadRequestError ''Product not found'')
      | Some product \<Rightarrow>
          (case price product of
             None \<Rightarrow> Inl (BadRequestError ''Product is not for sale'')
           | Some x \<Rightarrow> fill_basket rt ps ids (basket @ [product])))"

text \<open>\<open>basket.reduce((a, c) => a + c.price, 0)\<close>; \<open>a + null\<close> is \<open>a + 0\<close>.\<close>

definition basket_total :: "'n::{zero,plus} product list \<Rightarrow> 'n" where
  "basket_total basket = foldl (\<lambda>a c. a + (case price c of None \<Rightarrow> 0 | Some x \<Rightarrow> x)) 0 basket"

definition new_order ::
  "'n db \<Rightarrow> user \<Rightarrow> 'n product list \<Rightarrow> 'n jsval \<Rightarrow> 'n jsval \<Rightarrow> 'n jsval \<Rightarrow> 'n jsval \<Rightarrow> 'n jsval
     \<Rightarrow> 'n jsval \<Rightarrow> (string \<times> 'n jsval) list" where
  "new_order d usr basket orderTotal payment' phone' email' comment' address =
     [(''totalAmount'', orderTotal),
      (''products'', JArr (map product_toObject basket)),
      (''payment'', payment'),
      (''phone'', phone'),
      (''email'', email'),
      (''comment'', comment'),
      (''customer'', case find (\<lambda>u. u_id u = u_id usr) (User_docs d) of
                        None \<Rightarrow> JNull | Some u \<Rightarrow> user_toObject u),
      (''deliveryAddress'', address)]"

definition place_order ::
  "'n::{zero,plus} runtime \<Rightarrow> 'n db \<Rightarrow> user \<Rightarrow> 'n jsval \<Rightarrow> 'n jsval \<Rightarrow> 'n jsval \<Rightarrow> 'n jsval
     \<Rightarrow> 'n jsval \<Rightarrow> 'n jsval \<Rightarrow> 'n jsval \<Rightarrow> ((string \<times> 'n jsval) list \<Rightarrow> error + 'n jsval)
     \<Rightarrow> error + 'n jsval" where
  "place_order rt d usr items orderTotal payment' phone' email' comment' address respond =
     (case items of
        JArr ids \<Rightarrow>
          if ids = [] then Inl (BadRequestError ''No products given for the order'')
          else
            (let validItems = filter (isValidObjectId rt) ids
             in if length validItems \<noteq> length ids then Inl (BadRequestError ''Invalid product IDs'')
                else
                  (case fill_basket rt (Product_docs d) validItems [] of
                     Inl e \<Rightarrow> Inl e
                   | Inr basket \<Rightarrow>
                       if JNum (basket_total basket) \<noteq> orderTotal
                       then Inl (BadRequestError ''Wrong order total'')
                       else
                         (let newOrder = new_order d usr basket orderTotal payment' phone' email'
                                           comment' address
                          in case validateOrder rt newOrder of
                               Some msg \<Rightarrow> Inl (BadRequestError msg)
                             | None \<Rightarrow> respond newOrder)))
      | _ \<Rightarrow> Inl (BadRequestError ''No products given for the order''))"

text \<open>
  \<open>createOrder\<close> of the order controller: every property of the request body is
  replaced by the result of \<open>cleanHtml\<close> on it, a string, and the fields of the order
  are read from the object so built.
\<close>

fun cleanOrderData ::
  "'n runtime \<Rightarrow> (string \<times> 'n jsval) list \<Rightarrow> (string \<times> 'n jsval) list
     \<Rightarrow> error + (string \<times> 'n jsval) list" where
  "cleanOrderData rt [] acc = Inr acc"
| "cleanOrderData rt (kv # rest) acc =
     (case cleanHtml (sanitizeHtml rt) (snd kv) of
        Inl e \<Rightarrow> Inl e
      | Inr s \<Rightarrow> cleanOrderData rt rest (setProp acc (fst kv) (JStr s)))"

definition createOrder ::
  "'n::{zero,plus} runtime \<Rightarrow> 'n db \<Rightarrow> user \<Rightarrow> (string \<times> 'n jsval) list \<Rightarrow> error + 'n jsval" where
  "createOrder rt d usr body =
     (case cleanOrderData rt body [] of
        Inl e \<Rightarrow> Inl e
      | Inr cleaned \<Rightarrow>
          place_order rt d usr
            (getProp cleaned ''items'') (getProp cleaned ''total'') (getProp cleaned ''payment'')
            (getProp cleaned ''phone'') (getProp cleaned ''email'') (getProp cleaned ''comment'')
            (getProp cleaned ''address'')
            (\<lambda>obj. case sanitizeOrder (sanitizeHtml rt) obj of
                      Inl e \<Rightarrow> Inl e
                    | Inr sanitized \<Rightarrow> Inr (JObj sanitized)))"

text \<open>
  \<open>createOrder\<close> of the other copy of the controller: \<open>address\<close>, \<open>phone\<close>,
  \<open>email\<close> and a truthy \<open>comment\<close> are trimmed, which throws a TypeError for a value
  that is not a string, and sanitized; \<open>items\<close>, \<open>total\<close> and \<open>payment\<close> are taken
  from the body as they are, and the saved order is returned as it is. \<open>trim\<close>
  removes the white space at both ends.
\<close>

definition trim :: "string \<Rightarrow> string" where
  "trim s = rev (strip_leading (map rev white_space) (rev (strip_leading white_space s)))"

definition clean_trimmed :: "'n runtime \<Rightarrow> 'n jsval \<Rightarrow> error + string" where
  "clean_trimmed rt v =
     (case v of JStr s \<Rightarrow> cleanHtml (sanitizeHtml rt) (JStr (trim s)) | _ \<Rightarrow> Inl TypeError)"

definition createOrder_unsanitized ::
  "'n::{zero,plus} runtime \<Rightarrow> 'n db \<Rightarrow> user \<Rightarrow> (string \<times> 'n jsval) list \<Rightarrow> error + 'n jsval" where
  "createOrder_unsanitized rt d usr body =
     (case clean_trimmed rt (getProp body ''address'') of
        Inl e \<Rightarrow> Inl e
      | Inr sanitizedAddress \<Rightarrow>
     (case clean_trimmed rt (getProp body ''phone'') of
        Inl e \<Rightarrow> Inl e
      | Inr sanitizedPhone \<Rightarrow>
     (case clean_trimmed rt (getProp body ''email'') of
        Inl e \<Rightarrow> Inl e
      | Inr sanitizedEmail \<Rightarrow>
     (case (if truthy (getProp body ''comment'')
            then clean_trimmed rt (getProp body ''comment'') else Inr []) of
        Inl e \<Rightarrow> Inl e
      | Inr sanitizedComment \<Rightarrow>
          place_order rt d usr
            (getProp body ''items'') (getProp body ''total'') (getProp body ''payment'')
            (JStr sanitizedPhone) (JStr sanitizedEmail) (JStr sanitizedComment)
            (JStr sanitizedAddress) (\<lambda>obj. Inr (JObj obj))))))"

section \<open>A runtime and a store for the examples\<close>

text \<open>
  The examples below need a concrete runtime. \<open>example_runtime\<close> agrees with the
  JavaScript runtime, the packages and the database on the inputs the examples use:
  text without the characters \<open><\<close>, \<open>>\<close>, \<open>&\<close> and quotes, which
  \<open>sanitize-html\<close> returns as it is; patterns without regex metacharacters, which
  compile and match the strings that contain them, whatever the case of the letters; the
  empty string and decimal numerals, whose numbers are 0 and the numeral's value;
  dates of the form \<open>YYYY-MM-DD\<close>, which are the start of that day in UTC;
  identifiers of 24 hexadecimal digits; sort keys made of letters and dots, which the
  database accepts unless the key or one of its parts between the dots is empty. On an
  object, where the result of
  \<open>sanitize-html\<close> depends on the version of the package, it returns the text
  \<open>[object Object]\<close>, as the versions do that convert their argument to a string;
  on \<open>undefined\<close> it returns the empty string.
\<close>

definition plain_text :: "int jsval \<Rightarrow> sanitize_options \<Rightarrow> error + string" where
  "plain_text v opts = (case v of JStr s \<Rightarrow> Inr s | JObj kvs \<Rightarrow> Inr ''[object Object]'' | _ \<Rightarrow> Inr [])"

definition lower_case :: "char \<Rightarrow> char" where
  "lower_case c = (let n = (of_char c :: nat) in if 65 \<le> n \<and> n \<le> 90 then char_of (n + 32) else c)"

fun is_prefix :: "string \<Rightarrow> string \<Rightarrow> bool" where
  "is_prefix [] s = True"
| "is_prefix (c # cs) [] = False"
| "is_prefix (c # cs) (x # xs) = (c = x \<and> is_prefix cs xs)"

fun contains :: "string \<Rightarrow> string \<Rightarrow> bool" where
  "contains p [] = (p = [])"
| "contains p (x # xs) = (is_prefix p (x # xs) \<or> contains p xs)"

definition literal_pattern :: "string \<Rightarrow> bool" where
  "literal_pattern p = list_all (\<lambda>c. c \<notin> set regex_metachars) p"

definition literal_test :: "string \<Rightarrow> string \<Rightarrow> bool" where
  "literal_test p s = contains (map lower_case p) (map lower_case s)"

definition decimal_number :: "string \<Rightarrow> int option" where
  "decimal_number s =
     (if s = [] then Some 0
      else if list_all (\<lambda>c. digit_of 10 c \<noteq> None) s then parseInt_string s
      else None)"

definition days_from_civil :: "int \<Rightarrow> int \<Rightarrow> int \<Rightarrow> int" where
  "days_from_civil y m d =
     (let y' = (if m \<le> 2 then y - 1 else y);
          era = y' div 400;
          yoe = y' - era * 400;
          mp = (if m > 2 then m - 3 else m + 9);
          doy = (153 * mp + 2) div 5 + d - 1;
          doe = yoe * 365 + yoe div 4 - yoe div 100 + doy
      in era * 146097 + doe - 719468)"

definition days_in_month :: "int \<Rightarrow> int \<Rightarrow> int" where
  "days_in_month y m =
     (if m = 2 then (if y mod 4 = 0 \<and> (y mod 100 \<noteq> 0 \<or> y mod 400 = 0) then 29 else 28)
      else if m = 4 \<or> m = 6 \<or> m = 9 \<or> m = 11 then 30 else 31)"

definition iso_date :: "string \<Rightarrow> int option" where
  "iso_date s =
     (if length s = 10 \<and> s ! 4 = CHR ''-'' \<and> s ! 7 = CHR ''-''
         \<and> list_all (\<lambda>c. digit_of 10 c \<noteq> None) (take 4 s @ take 2 (drop 5 s) @ drop 8 s)
      then
        (case (parseInt_string (take 4 s), parseInt_string (take 2 (drop 5 s)),
               parseInt_string (drop 8 s)) of
           (Some y, Some m, Some d) \<Rightarrow>
             if 1 \<le> m \<and> m \<le> 12 \<and> 1 \<le> d \<and> d \<le> days_in_month y m
             then Some (days_from_civil y m d * 86400000) else None
         | _ \<Rightarrow> None)
      else None)"

definition hex24 :: "string \<Rightarrow> bool" where
  "hex24 s = (length s = 24 \<and> list_all (\<lambda>c. digit_of 16 c \<noteq> None) s)"

definition valid_sort_key :: "string \<Rightarrow> bool" where
  "valid_sort_key k = list_all (\<lambda>w. w \<noteq> [] \<and> \<not> startsWith_dollar w) (split_dots k)"

definition example_runtime :: "int runtime" where
  "example_runtime =
     \<lparr> sanitizeHtml = plain_text,
       regexCompiles = literal_pattern,
       regexTest = literal_test,
       numberOfString = decimal_number,
       dateParse = iso_date,
       isValidObjectId = (\<lambda>v. case v of JStr s \<Rightarrow> hex24 s | _ \<Rightarrow> False),
       objectIdEquals = (\<lambda>i v. case v of JStr s \<Rightarrow> hex24 s \<and> map lower_case s = i | _ \<Rightarrow> False),
       sortKeyAccepted = valid_sort_key,
       validateOrder = (\<lambda>obj. None) \<rparr>"

text \<open>A store with two customers, an admin, two products and three orders; the first
  two orders belong to the first customer.\<close>

definition alice :: user where
  "alice = \<lparr> u_id = ''65a000000000000000000001'', roles = [''customer''] \<rparr>"

definition bob :: user where
  "bob = \<lparr> u_id = ''65a000000000000000000002'', roles = [''customer''] \<rparr>"

definition admin :: user where
  "admin = \<lparr> u_id = ''65a000000000000000000003'', roles = [''admin''] \<rparr>"

definition green_tea :: "int product" where
  "green_tea = \<lparr> p_id = ''65b000000000000000000001'', title = ''Green tea'', price = Some 100 \<rparr>"

definition black_tea :: "int product" where
  "black_tea = \<lparr> p_id = ''65b000000000000000000002'', title = ''Black tea'', price = Some 150 \<rparr>"

definition order1 :: "int order" where
  "order1 =
     \<lparr> o_id = ''65c000000000000000000001'', orderNumber = 1, status = ''new'',
       totalAmount = 100, products = [''65b000000000000000000001''],
       customer = ''65a000000000000000000001'', createdAt = 1000, payment = ''card'',
       deliveryAddress = Some ''Main St 1'', comment = Some ''first'',
       email = Some ''alice at example.org'', phone = Some ''111'' \<rparr>"

definition order2 :: "int order" where
  "order2 =
     \<lparr> o_id = ''65c000000000000000000002'', orderNumber = 2, status = ''completed'',
       totalAmount = 150, products = [''65b000000000000000000002''],
       customer = ''65a000000000000000000001'', createdAt = 2000, payment = ''card'',
       deliveryAddress = Some ''Main St 1'', comment = Some ''second'',
       email = Some ''alice at example.org'', phone = Some ''111'' \<rparr>"

definition order3 :: "int order" where
  "order3 =
     \<lparr> o_id = ''65c000000000000000000003'', orderNumber = 3, status = ''new'',
       totalAmount = 100, products = [''65b000000000000000000001''],
       customer = ''65a000000000000000000002'', createdAt = 3000, payment = ''card'',
       deliveryAddress = Some ''Side St 2'', comment = None,
       email = Some ''bob at example.org'', phone = Some ''222'' \<rparr>"

text \<open>An order of the first customer created on 2024-01-15 at 23:59:59.500 UTC, and an
  order whose customer is no user of the store.\<close>

definition late_order :: "int order" where
  "late_order =
     \<lparr> o_id = ''65c000000000000000000004'', orderNumber = 4, status = ''new'',
       totalAmount = 100, products = [''65b000000000000000000001''],
       customer = ''65a000000000000000000001'', createdAt = 1705363199500, payment = ''card'',
       deliveryAddress = Some ''Main St 1'', comment = None,
       email = Some ''alice at example.org'', phone = Some ''111'' \<rparr>"

definition orphan_order :: "int order" where
  "orphan_order =
     \<lparr> o_id = ''65c000000000000000000005'', orderNumber = 5, status = ''new'',
       totalAmount = 100, products = [''65b000000000000000000001''],
       customer = ''65a000000000000000000009'', createdAt = 5000, payment = ''card'',
       deliveryAddress = Some ''Gone St 3'', comment = None,
       email = Some ''carol at example.org'', phone = Some ''333'' \<rparr>"

definition shop :: "int db" where
  "shop =
     \<lparr> Order_docs = [order1, order2, order3, late_order, orphan_order],
       Product_docs = [green_tea, black_tea], User_docs = [alice, bob, admin] \<rparr>"

definition alice_store :: "int db" where
  "alice_store =
     \<lparr> Order_docs = [order1, order2], Product_docs = [green_tea, black_tea],
       User_docs = [alice, bob, admin] \<rparr>"



text \<open>The identifiers of the orders of a response.\<close>

definition response_ids :: "error + 'n orders_response \<Rightarrow> error + 'n jsval list" where
  "response_ids res =
     (case res of
        Inl e \<Rightarrow> Inl e
      | Inr r \<Rightarrow> Inr (map (\<lambda>doc. getProp (props_of doc) ''_id'') (orders r)))"

section \<open>Properties of the sanitizers\<close>

text \<open>
  Claim C8. For a string that does not begin with \<open>$\<close>, \<open>sanitizeSearch\<close> is to
  escape every regex metacharacter exactly once. The source runs the backslash
  replacement after the metacharacter replacement, so the backslash it has just put in
  front of a metacharacter is doubled: on \<open>a.b\<close> the result is \<open>a\<close>, two
  backslashes, \<open>.\<close>, \<open>b\<close>, which as a regular expression is an escaped backslash
  followed by an unescaped dot.
\<close>

theorem sanitizeSearch_doubles_escape:
  "sanitizeSearch ''a.b'' = [CHR ''a'', backslash, backslash, CHR ''.'', CHR ''b'']"
  by (simp add: sanitizeSearch_def escape_chars_def regex_metachars_def backslash_def
      single_quote_def double_quote_def)

text \<open>
  What the two sanitizers do with a key, for every input: \<open>sanitizeQueryParams\<close>
  accepts a string value under any key, and \<open>sanitizeAggregationFilters\<close> raises its
  one error, the BadRequest error, as soon as a key of the object or of an object nested
  in it starts with \<open>$\<close>.
\<close>

lemma sanitizeQueryParams_any_key:
  "\<not> startsWith_dollar s \<Longrightarrow>
   sanitizeQueryParams (JObj [(key, JStr s)]) = Inr (JObj [(key, JStr (sanitizeSearch s))])"
  by simp

lemma sanitizeAggregation_error:
  "sanitizeAggregationFilters (v :: 'n::zero jsval) = Inl e \<Longrightarrow> e = invalid_request"
  "sanitizeAggregationEntries (kvs :: (string \<times> 'n jsval) list) acc = Inl e \<Longrightarrow> e = invalid_request"
  "sanitizeAggregationItems i (xs :: 'n jsval list) acc = Inl e \<Longrightarrow> e = invalid_request"
proof (induction v and kvs acc and i xs acc
      rule: sanitizeAggregationFilters_sanitizeAggregationEntries_sanitizeAggregationItems.induct)
  case (11 key "value" rest acc)
  show ?case
  proof (cases "value")
    case (JStr s)
    with 11 show ?thesis by (simp split: if_splits)
  next
    case (JObj kvs)
    with 11 show ?thesis by (simp split: if_splits sum.splits)
  next
    case (JArr xs)
    with 11 show ?thesis by (simp split: if_splits sum.splits)
  next
    case (JDate t)
    with 11 show ?thesis by (simp split: if_splits sum.splits)
  qed (use 11 in \<open>simp_all split: if_splits\<close>)
next
  case (13 i "value" rest acc)
  show ?case
  proof (cases "value")
    case (JStr s)
    with 13 show ?thesis by (simp split: if_splits)
  next
    case (JObj kvs)
    with 13 show ?thesis by (simp split: if_splits sum.splits)
  next
    case (JArr xs)
    with 13 show ?thesis by (simp split: if_splits sum.splits)
  next
    case (JDate t)
    with 13 show ?thesis by (simp split: if_splits sum.splits)
  qed (use 13 in \<open>simp_all split: if_splits\<close>)
qed (simp_all add: aggregationDirectives_def split: if_splits)

lemma sanitizeAggregationEntries_step:
  assumes "\<not> startsWith_dollar key"
    and "\<And>acc'. sanitizeAggregationEntries rest acc' = Inl invalid_request"
  shows "sanitizeAggregationEntries ((key, value) # rest) acc = Inl invalid_request"
  using assms
  by (cases "value")
     (auto simp: aggregationDirectives_def split: sum.splits if_splits
           dest: sanitizeAggregation_error)

lemma sanitizeAggregationEntries_dollar_key:
  "list_ex (\<lambda>kv. startsWith_dollar (fst kv)) kvs \<Longrightarrow>
   sanitizeAggregationEntries kvs acc = Inl invalid_request"
proof (induction kvs arbitrary: acc)
  case Nil
  then show ?case by simp
next
  case (Cons kv kvs)
  obtain key "value" where kv: "kv = (key, value)" by (cases kv)
  show ?case
  proof (cases "startsWith_dollar key")
    case True
    with kv show ?thesis by simp
  next
    case False
    with Cons kv have "\<And>acc'. sanitizeAggregationEntries kvs acc' = Inl invalid_request"
      by simp
    with False show ?thesis
      unfolding kv by (rule sanitizeAggregationEntries_step)
  qed
qed

lemma sanitizeAggregationEntries_nested_dollar_key:
  assumes "(k, JObj bounds) \<in> set kvs" and "list_ex (\<lambda>kv. startsWith_dollar (fst kv)) bounds"
  shows "sanitizeAggregationEntries kvs acc = Inl invalid_request"
  using assms(1)
proof (induction kvs arbitrary: acc)
  case Nil
  then show ?case by simp
next
  case (Cons kv kvs)
  obtain key "value" where kv: "kv = (key, value)" by (cases kv)
  have nested: "sanitizeAggregationFilters (JObj bounds) = Inl invalid_request"
    using sanitizeAggregationEntries_dollar_key [OF assms(2)] by simp
  show ?case
  proof (cases "startsWith_dollar key")
    case True
    with kv show ?thesis by simp
  next
    case False
    show ?thesis
    proof (cases "kv = (k, JObj bounds)")
      case True
      with kv have "kv = (key, JObj bounds)" by simp
      with nested False show ?thesis by simp
    next
      case no: False
      with Cons have "\<And>acc'. sanitizeAggregationEntries kvs acc' = Inl invalid_request"
        by simp
      with False show ?thesis
        unfolding kv by (rule sanitizeAggregationEntries_step)
    qed
  qed
qed

text \<open>
  Claim C1. Both sanitizers are to raise a BadRequest error whenever a key or a string
  value begins with \<open>$\<close>, at any depth. \<open>sanitizeQueryParams\<close> never looks at a key:
  the query \<open>filters[$where]=x\<close>, which the query parser delivers as the object
  \<open>{filters: {$where: 'x'}}\<close>, passes it unchanged, and so does the key at the top
  level. \<open>sanitizeAggregationFilters\<close> refuses both.
\<close>

theorem sanitizeQueryParams_accepts_dollar_key:
  "sanitizeQueryParams (JObj [(''filters'', JObj [(''$where'', JStr ''x'')])])
     = Inr (JObj [(''filters'', JObj [(''$where'', JStr ''x'')])])
   \<and> sanitizeQueryParams (JObj [(''$where'', JStr ''x'')]) = Inr (JObj [(''$where'', JStr ''x'')])
   \<and> sanitizeAggregationFilters (JObj [(''filters'', JObj [(''$where'', JStr ''x'')])])
     = Inl invalid_request
   \<and> sanitizeAggregationFilters (JObj [(''$where'', JStr ''x'')]) = Inl invalid_request"
  by (simp add: startsWith_dollar_def sanitizeSearch_def escape_chars_def regex_metachars_def
      backslash_def single_quote_def double_quote_def)

section \<open>Properties of page and limit\<close>


lemma limit_of_at_most_10: "limit_of query \<le> 10"
  by (simp add: limit_of_def)

lemma limit_of_negative:
  "parseInt (getProp query ''limit'') = Some n \<Longrightarrow> n < 0 \<Longrightarrow> limit_of query = n"
  by (simp add: limit_of_def or_default_def)

text \<open>White space beyond U+007F is skipped as well: the limit of the query
  \<open>limit=%C2%A05\<close>, a no-break space and the digit 5, is 5.\<close>

lemma limit_of_no_break_space:
  "limit_of [(''limit'', JStr [CHR 0xC2, CHR 0xA0, CHR ''5'']) :: string \<times> int jsval] = 5"
  by code_simp

text \<open>
  Claim C4. For every page and limit that a client supplies the page size is to lie
  between 1 and 10. The source takes the minimum of 10 and the parsed limit and has no
  lower bound: for \<open>limit=-5\<close> the search of a customer answers with the page size
  \<open>-5\<close>, no order of the two that match, and 0 pages.
\<close>

theorem getOrders_negative_page_size:
  "getOrders example_runtime alice_store alice [(''search'', JStr ''tea''), (''limit'', JStr ''-5'')]
     = Inr \<lparr> orders = [],
             pagination = \<lparr> totalOrders = 2, totalPages = 0, currentPage = 1, pageSize = - 5 \<rparr> \<rparr>"
  by code_simp

section \<open>Properties of the output sanitizer\<close>

lemma getProp_setProp:
  "getProp (setProp obj k v) k' = (if k' = k then v else getProp obj k')"
  by (induction obj) auto

lemma sanitizeOrder_throws:
  "cleanHtml (sanitizeHtml rt) (JObj orderObject) = Inl e \<Longrightarrow>
   \<exists>e'. sanitizeOrder (sanitizeHtml rt) orderObject = Inl e'"
  by (simp add: sanitizeOrder_def split: sum.splits)

text \<open>
  Claim C5. Every markup-bearing field of a returned order, \<open>comment\<close> among them, is
  to be the markup sanitizer applied to that same field of the stored record. Whenever
  \<open>sanitizeOrder\<close> returns, the \<open>comment\<close> of its result is the sanitizer applied to
  the whole order object, not to its \<open>comment\<close>; the stored comment enters the result
  only as a part of that object. The other three fields are computed from their own
  stored values. (When the sanitizer throws for the object, \<open>sanitizeOrder\<close> throws.)
\<close>

theorem sanitizeOrder_comment_from_whole_object:
  assumes "sanitizeOrder (sanitizeHtml rt) orderObject = Inr sanitized"
  shows "\<exists>cleanComment cleanAddress cleanEmail cleanPhone.
           cleanHtml (sanitizeHtml rt) (JObj orderObject) = Inr cleanComment
         \<and> getProp sanitized ''comment'' = or_empty cleanComment
         \<and> cleanHtml (sanitizeHtml rt) (getProp orderObject ''deliveryAddress'') = Inr cleanAddress
         \<and> getProp sanitized ''deliveryAddress'' = or_empty cleanAddress
         \<and> cleanHtml (sanitizeHtml rt) (getProp orderObject ''email'') = Inr cleanEmail
         \<and> getProp sanitized ''email'' = or_empty cleanEmail
         \<and> cleanHtml (sanitizeHtml rt) (getProp orderObject ''phone'') = Inr cleanPhone
         \<and> getProp sanitized ''phone'' = or_empty cleanPhone"
  using assms
  by (auto simp: sanitizeOrder_def getProp_setProp split: sum.splits)

text \<open>The claim at the first order of the example store, whose stored comment is
  \<open>first\<close>: the comment of the result is the sanitizer's text for the object.\<close>

theorem sanitizeOrder_comment_from_whole_object_witness:
  "getProp (populated_order shop order1) ''comment'' = JStr ''first''
   \<and> (\<exists>sanitized. sanitizeOrder (sanitizeHtml example_runtime) (populated_order shop order1)
                      = Inr sanitized
          \<and> getProp sanitized ''comment'' = JStr ''[object Object]''
          \<and> getProp sanitized ''deliveryAddress'' = JStr ''Main St 1'')"
proof -
  have stored: "getProp (populated_order shop order1) ''comment'' = (JStr ''first'' :: int jsval)"
    by code_simp
  obtain sanitized where
    s: "sanitizeOrder (sanitizeHtml example_runtime) (populated_order shop order1) = Inr sanitized"
    by (cases "sanitizeOrder (sanitizeHtml example_runtime) (populated_order shop order1)")
       (simp_all add: sanitizeOrder_def cleanHtml_def example_runtime_def plain_text_def
          split: sum.splits jsval.splits)
  have whole: "cleanHtml (sanitizeHtml example_runtime) (JObj (populated_order shop order1))
      = Inr ''[object Object]''"
    by (simp add: cleanHtml_def example_runtime_def plain_text_def)
  have address: "cleanHtml (sanitizeHtml example_runtime)
      (getProp (populated_order shop order1) ''deliveryAddress'') = Inr ''Main St 1''"
    by code_simp
  from sanitizeOrder_comment_from_whole_object [OF s] whole address
  have "getProp sanitized ''comment'' = or_empty ''[object Object]''"
    and "getProp sanitized ''deliveryAddress'' = or_empty ''Main St 1''"
    by auto
  then have "getProp sanitized ''comment'' = JStr ''[object Object]''"
    and "getProp sanitized ''deliveryAddress'' = JStr ''Main St 1''"
    by (simp_all add: or_empty_def)
  with stored s show ?thesis by blast
qed

section \<open>Properties of the handlers for one record and of order creation\<close>

text \<open>
  Claim C2. A requester who fetches an order that exists and belongs to someone else is
  to get a NotFound error. When the user the order refers to has been deleted (the
  deletion of a customer leaves the orders in place), the populated customer is
  \<open>null\<close> and the comparison of identifiers throws: the requester gets a TypeError,
  which the error handler reports as an internal error.
\<close>

theorem getOrderCurrentUserByNumber_orphan_order:
  "getOrderCurrentUserByNumber example_runtime shop bob ''5'' = Inl TypeError"
  by code_simp

text \<open>
  An order whose owner is a user of the store other than the requester is reported as
  not found, and so is a customer record other than the requester's own when the
  requester is no admin.
\<close>

lemma getOrderCurrentUserByNumber_foreign_order:
  assumes "numberOfString rt orderNumberParam = Some n"
    and "find (\<lambda>ord. orderNumber ord = n) (Order_docs d) = Some ord"
    and "populate_customer d ord = Some owner"
    and "u_id owner \<noteq> u_id usr"
  shows "getOrderCurrentUserByNumber rt d usr orderNumberParam = Inl order_not_found"
  using assms by (simp add: getOrderCurrentUserByNumber_def)

lemma getCustomerById_foreign_record:
  assumes "\<not> isAdmin userLocal"
    and "sanitizeQueryParams (JObj params) = Inr safeParams"
    and "getProp (props_of safeParams) ''id'' \<noteq> JStr (u_id userLocal)"
  shows "getCustomerById rt d userLocal params = Inl (NotFoundError ''Invalid user ID'')
       \<or> getCustomerById rt d userLocal params = Inl user_not_found"
  using assms by (auto simp: getCustomerById_def Let_def)

lemma cleanOrderData_strings:
  assumes "cleanOrderData rt body acc = Inr cleaned"
    and "\<forall>k. (\<exists>s. getProp acc k = JStr s) \<or> getProp acc k = JUndefined"
  shows "(\<exists>s. getProp cleaned k = JStr s) \<or> getProp cleaned k = JUndefined"
  using assms
proof (induction body arbitrary: acc)
  case Nil
  then show ?case by simp
next
  case (Cons kv body)
  from Cons.prems(1) obtain s where
    s: "cleanHtml (sanitizeHtml rt) (snd kv) = Inr s"
    and rest: "cleanOrderData rt body (setProp acc (fst kv) (JStr s)) = Inr cleaned"
    by (auto split: sum.splits)
  have "\<forall>k. (\<exists>s'. getProp (setProp acc (fst kv) (JStr s)) k = JStr s')
            \<or> getProp (setProp acc (fst kv) (JStr s)) k = JUndefined"
    using Cons.prems(2) by (simp add: getProp_setProp)
  from Cons.IH [OF rest this] show ?case .
qed

text \<open>
  Claim C10. Order creation is to succeed, with the sum of the prices as its total,
  when the items are a non-empty list of identifiers of products that are for sale and
  the submitted total is that sum. \<open>createOrder\<close> replaces every property of the body
  by the string that \<open>cleanHtml\<close> returns for it, so \<open>items\<close> is never an array: for
  every body, valid or not, the handler answers with the BadRequest error of the items
  check, or with the exception of \<open>cleanHtml\<close> when it throws for a property. It
  never creates an order.
\<close>

theorem createOrder_always_rejects:
  "createOrder rt d usr body = Inl (BadRequestError ''No products given for the order'')
   \<or> (\<exists>e. cleanOrderData rt body [] = Inl e \<and> createOrder rt d usr body = Inl e)"
proof (cases "cleanOrderData rt body []")
  case (Inl e)
  then show ?thesis by (simp add: createOrder_def)
next
  case (Inr cleaned)
  have "(\<exists>s. getProp cleaned ''items'' = JStr s) \<or> getProp cleaned ''items'' = JUndefined"
    by (rule cleanOrderData_strings [OF Inr]) simp
  with Inr show ?thesis
    by (auto simp: createOrder_def place_order_def)
qed

text \<open>The other copy of the handler accepts a valid order and returns it with the
  submitted total, the sum of the prices of its products.\<close>

lemma createOrder_unsanitized_accepts:
  "createOrder_unsanitized example_runtime shop alice
     [(''address'', JStr ''Main St 1''), (''payment'', JStr ''card''), (''phone'', JStr ''111''),
      (''email'', JStr ''alice at example.org''), (''total'', JNum 100),
      (''items'', JArr [JStr ''65b000000000000000000001''])]
   = Inr (JObj
       [(''totalAmount'', JNum 100),
        (''products'', JArr [product_toObject green_tea]),
        (''payment'', JStr ''card''), (''phone'', JStr ''111''),
        (''email'', JStr ''alice at example.org''), (''comment'', JStr []),
        (''customer'', user_toObject alice), (''deliveryAddress'', JStr ''Main St 1'')])"
  by code_simp


section \<open>Properties of the order listing\<close>

text \<open>
  Claim C7. A \<open>To\<close> bound on the date of an order is to be moved to the end of its
  day and applied as an inclusive upper bound, so that an order created at 23:59:59.500
  on 2024-01-15 is in the result for \<open>orderDateTo=2024-01-15\<close>. The admin branch
  builds the filter \<open>{ createdAt: { $lte: new Date(orderDateTo) } }\<close>, whose bound is
  the start of that day, which the order does not satisfy; and it passes the filter to
  \<open>sanitizeAggregationFilters\<close>, which refuses the key \<open>$lte\<close>: the request is
  answered with a BadRequest error and no result.
\<close>

theorem getOrders_orderDateTo_rejected:
  "getOrders example_runtime shop admin [(''search'', JStr ''''), (''orderDateTo'', JStr ''2024-01-15'')]
     = Inl invalid_request
   \<and> order_filters example_runtime [(''search'', JStr ''''), (''orderDateTo'', JStr ''2024-01-15'')]
     = [(''createdAt'', JObj [(''$lte'', JDate (Some 1705276800000))])]
   \<and> createdAt late_order = 1705363199500
   \<and> \<not> order_matches [(''createdAt'', JObj [(''$lte'', JDate (Some 1705276800000))])] late_order"
  by code_simp

text \<open>
  The refusal does not depend on the store or the date: every request of an admin with
  a search string and a date \<open>To\<close> bound is answered with the BadRequest error.
\<close>

lemma setProp_has_key: "(k, v) \<in> set (setProp obj k v)"
  by (induction obj) auto

lemma setProp_key_listed: "list_ex (\<lambda>kv. fst kv = k) (setProp obj k v)"
  by (induction obj) auto

lemma order_filters_orderDateTo:
  assumes "getProp safeQuery ''orderDateTo'' = JStr day" and "day \<noteq> []"
  shows "\<exists>bounds. (''createdAt'', JObj bounds) \<in> set (order_filters rt safeQuery)
           \<and> list_ex (\<lambda>kv. startsWith_dollar (fst kv)) bounds"
proof -
  have "\<exists>f4. order_filters rt safeQuery = add_bound f4 ''createdAt'' ''$lte'' (Date_js rt day)"
    using assms by (auto simp: order_filters_def Let_def)
  then obtain f4 where f4: "order_filters rt safeQuery = add_bound f4 ''createdAt'' ''$lte'' (Date_js rt day)"
    by blast
  let ?bounds = "setProp (props_of (getProp f4 ''createdAt'')) ''$lte'' (Date_js rt day)"
  have "(''createdAt'', JObj ?bounds) \<in> set (order_filters rt safeQuery)"
    unfolding f4 add_bound_def by (rule setProp_has_key)
  moreover have "list_ex (\<lambda>kv. fst kv = ''$lte'') ?bounds"
    by (rule setProp_key_listed)
  then have "list_ex (\<lambda>kv. startsWith_dollar (fst kv)) ?bounds"
    unfolding list_ex_iff by (force simp: startsWith_dollar_def)
  ultimately show ?thesis by blast
qed

lemma getOrders_date_bound_refused:
  assumes "isAdmin usr"
    and "sanitizeQueryParams (JObj query) = Inr safeQuery"
    and "getProp (props_of safeQuery) ''search'' = JStr searchTerm"
    and "regexCompiles rt (sanitizeSearch searchTerm)"
    and "getProp (props_of safeQuery) ''orderDateTo'' = JStr day" and "day \<noteq> []"
  shows "getOrders rt d usr query = Inl invalid_request"
proof -
  from order_filters_orderDateTo [OF assms(5,6)] obtain bounds where
    "(''createdAt'', JObj bounds) \<in> set (order_filters rt (props_of safeQuery))"
    "list_ex (\<lambda>kv. startsWith_dollar (fst kv)) bounds"
    by blast
  then have "sanitizeAggregationFilters (JObj (order_filters rt (props_of safeQuery)))
      = Inl invalid_request"
    by (simp add: sanitizeAggregationEntries_nested_dollar_key)
  with assms(1-4) show ?thesis
    by (simp add: getOrders_def getOrders_admin_def Let_def)
qed

lemma set_slice_subset: "set (slice xs a b) \<subseteq> set xs"
  unfolding slice_def Let_def
  by (meson set_take_subset set_drop_subset subset_trans)

lemma skip_limit_subset: "skip_limit k m xs = Inr ys \<Longrightarrow> set ys \<subseteq> set xs"
  unfolding skip_limit_def
  by (auto split: if_splits dest: in_set_takeD in_set_dropD)

lemma order_matches_customer:
  "order_matches [(''customer'', JStr uid)] ord \<longleftrightarrow> customer ord = uid"
  by (auto simp: order_matches_def order_field_matches_def)

lemma getProp_order_toObject_id: "getProp (order_toObject ord ps c) ''_id'' = JStr (o_id ord)"
  by (simp add: order_toObject_def)

lemma getProp_sanitizeOrder_id:
  "sanitizeOrder f obj = Inr sanitized \<Longrightarrow> getProp sanitized ''_id'' = getProp obj ''_id''"
  by (auto simp: sanitizeOrder_def getProp_setProp split: sum.splits)

lemma sanitizeOrders_ids:
  "sanitizeOrders f objs = Inr docs \<Longrightarrow>
   map (\<lambda>doc. getProp (props_of doc) ''_id'') docs = map (\<lambda>obj. getProp obj ''_id'') objs"
proof (induction objs arbitrary: docs)
  case Nil
  then show ?case by simp
next
  case (Cons obj objs)
  then show ?case
    by (auto simp: getProp_sanitizeOrder_id split: sum.splits)
qed



lemma search_orders_subset: "set (search_orders rt d re n xs) \<subseteq> set xs"
  by (auto simp: search_orders_def Let_def)

lemma getOrders_customer_ids:
  assumes "response_ids (getOrders_customer rt d usr query t re n) = Inr ids"
  shows "\<exists>ords. ids = map (\<lambda>ord. JStr (o_id ord)) ords
           \<and> set ords \<subseteq> {ord \<in> set (Order_docs d). customer ord = u_id usr}"
proof (cases "t \<noteq> []")
  case True
  let ?all = "filter (order_matches [(''customer'', JStr (u_id usr))]) (Order_docs d)"
  let ?ords = "slice (search_orders rt d re n ?all) ((page_of query - 1) * limit_of query)
                 (page_of query * limit_of query)"
  from assms True obtain docs where
    docs: "sanitizeOrders (sanitizeHtml rt) (map (order_with_products d) ?ords) = Inr docs"
    and ids: "ids = map (\<lambda>doc. getProp (props_of doc) ''_id'') docs"
    by (auto simp: getOrders_customer_def response_ids_def Let_def split: sum.splits)
  have "ids = map (\<lambda>ord. JStr (o_id ord)) ?ords"
    unfolding ids sanitizeOrders_ids [OF docs]
    by (simp add: order_with_products_def getProp_order_toObject_id comp_def)
  moreover have "set ?ords \<subseteq> {ord \<in> set (Order_docs d). customer ord = u_id usr}"
    using set_slice_subset search_orders_subset
    by (fastforce simp: order_matches_customer)
  ultimately show ?thesis by blast
next
  case False
  let ?all = "filter (order_matches [(''customer'', JStr (u_id usr))]) (Order_docs d)"
  from assms False obtain ords docs where
    sl: "skip_limit ((page_of query - 1) * limit_of query) (limit_of query) ?all = Inr ords"
    and docs: "sanitizeOrders (sanitizeHtml rt) (map (populated_order d) ords) = Inr docs"
    and ids: "ids = map (\<lambda>doc. getProp (props_of doc) ''_id'') docs"
    by (auto simp: getOrders_customer_def response_ids_def Let_def split: sum.splits)
  have "ids = map (\<lambda>ord. JStr (o_id ord)) ords"
    unfolding ids sanitizeOrders_ids [OF docs]
    by (simp add: populated_order_def getProp_order_toObject_id comp_def)
  moreover have "set ords \<subseteq> {ord \<in> set (Order_docs d). customer ord = u_id usr}"
    using skip_limit_subset [OF sl] by (auto simp: order_matches_customer)
  ultimately show ?thesis by blast
qed

lemma getOrders_customer_page_limit:
  "getProp query' ''page'' = getProp query ''page'' \<Longrightarrow>
   getProp query' ''limit'' = getProp query ''limit'' \<Longrightarrow>
   getOrders_customer rt d usr query' t re n = getOrders_customer rt d usr query t re n"
  by (simp add: getOrders_customer_def page_of_def limit_of_def)

lemma response_ids_Inl: "response_ids (Inl e) = Inl e"
  by (simp add: response_ids_def)

text \<open>
  Claim C3, as amended. For a requester who is not an admin, every order of the
  response is an order of the store whose customer is the requester; and the response
  depends on the query only through the search term of the sanitized query, the page and
  the limit: two queries that the sanitizer accepts and that agree on these three get the
  same response, whatever status, amount range and date range they carry.
\<close>

theorem getOrders_customer_scope_and_parameters:
  assumes "\<not> isAdmin usr"
  shows "(\<forall>ids. response_ids (getOrders rt d usr query) = Inr ids \<longrightarrow>
            (\<exists>ords. ids = map (\<lambda>ord. JStr (o_id ord)) ords
               \<and> set ords \<subseteq> {ord \<in> set (Order_docs d). customer ord = u_id usr}))
       \<and> (\<forall>query' safeQuery safeQuery'.
            sanitizeQueryParams (JObj query) = Inr safeQuery \<longrightarrow>
            sanitizeQueryParams (JObj query') = Inr safeQuery' \<longrightarrow>
            getProp (props_of safeQuery') ''search'' = getProp (props_of safeQuery) ''search'' \<longrightarrow>
            getProp query' ''page'' = getProp query ''page'' \<longrightarrow>
            getProp query' ''limit'' = getProp query ''limit'' \<longrightarrow>
            getOrders rt d usr query' = getOrders rt d usr query)"
proof (intro conjI allI impI)
  fix ids
  assume r: "response_ids (getOrders rt d usr query) = Inr ids"
  have "\<exists>t re n. response_ids (getOrders_customer rt d usr query t re n) = Inr ids"
    using r assms
    by (auto simp: getOrders_def Let_def response_ids_Inl split: sum.splits jsval.splits if_splits)
  then obtain t re n where "response_ids (getOrders_customer rt d usr query t re n) = Inr ids"
    by blast
  then show "\<exists>ords. ids = map (\<lambda>ord. JStr (o_id ord)) ords
               \<and> set ords \<subseteq> {ord \<in> set (Order_docs d). customer ord = u_id usr}"
    by (rule getOrders_customer_ids)
next
  fix query' safeQuery safeQuery'
  assume "sanitizeQueryParams (JObj query) = Inr safeQuery"
    and "sanitizeQueryParams (JObj query') = Inr safeQuery'"
    and "getProp (props_of safeQuery') ''search'' = getProp (props_of safeQuery) ''search''"
    and "getProp query' ''page'' = getProp query ''page''"
    and "getProp query' ''limit'' = getProp query ''limit''"
  then show "getOrders rt d usr query' = getOrders rt d usr query"
    using assms
    by (simp add: getOrders_def getOrders_customer_page_limit [of query' query] Let_def
        split: jsval.splits)
qed

text \<open>
  Claim C3 as stated fails: in a store that holds the orders of one customer only, the
  customer's request with \<open>status=completed\<close> returns both orders, one of which is
  new, and the admin's request with the same query returns the completed order only.
\<close>

theorem getOrders_customer_ignores_status:
  "response_ids (getOrders example_runtime alice_store alice
       [(''search'', JStr ''''), (''status'', JStr ''completed'')])
     = Inr [JStr (o_id order1), JStr (o_id order2)]
   \<and> status order1 = ''new''
   \<and> response_ids (getOrders example_runtime alice_store admin
       [(''search'', JStr ''''), (''status'', JStr ''completed'')])
     = Inr [JStr (o_id order2)]"
  by code_simp

text \<open>The amended claim at a customer of the example store, whose three orders are
  returned with and without a status and a date bound in the query.\<close>

theorem getOrders_customer_scope_and_parameters_witness:
  "\<not> isAdmin alice
   \<and> response_ids (getOrders example_runtime shop alice [(''search'', JStr ''tea'')])
       = Inr [JStr (o_id order1), JStr (o_id order2), JStr (o_id late_order)]
   \<and> (\<exists>ords. [JStr (o_id order1), JStr (o_id order2), JStr (o_id late_order) :: int jsval]
                 = map (\<lambda>ord. JStr (o_id ord)) ords
            \<and> set ords \<subseteq> {ord \<in> set (Order_docs shop). customer ord = u_id alice})
   \<and> getOrders example_runtime shop alice
         [(''search'', JStr ''tea''), (''status'', JStr ''completed''),
          (''orderDateTo'', JStr ''2024-01-15'')]
       = getOrders example_runtime shop alice [(''search'', JStr ''tea'')]"
proof -
  let ?q = "[(''search'', JStr ''tea'')] :: (string \<times> int jsval) list"
  let ?q' = "[(''search'', JStr ''tea''), (''status'', JStr ''completed''),
              (''orderDateTo'', JStr ''2024-01-15'')] :: (string \<times> int jsval) list"
  have na: "\<not> isAdmin alice"
    by code_simp
  have ids: "response_ids (getOrders example_runtime shop alice ?q)
       = Inr [JStr (o_id order1), JStr (o_id order2), JStr (o_id late_order)]"
    by code_simp
  have sq: "sanitizeQueryParams (JObj ?q) = Inr (JObj ?q)"
    by code_simp
  have sq': "sanitizeQueryParams (JObj ?q') = Inr (JObj ?q')"
    by code_simp
  note inst = getOrders_customer_scope_and_parameters [OF na, of example_runtime shop ?q]
  have scope:
    "\<exists>ords. [JStr (o_id order1), JStr (o_id order2), JStr (o_id late_order) :: int jsval]
                 = map (\<lambda>ord. JStr (o_id ord)) ords
            \<and> set ords \<subseteq> {ord \<in> set (Order_docs shop). customer ord = u_id alice}"
    using inst [THEN conjunct1, rule_format, OF ids] .
  have same:
    "getOrders example_runtime shop alice ?q' = getOrders example_runtime shop alice ?q"
    using inst [THEN conjunct2, rule_format, OF sq sq'] by simp
  from na ids scope same show ?thesis by simp
qed










lemma slice_all: "int (length xs) \<le> b \<Longrightarrow> slice xs 0 b = xs"
  by (simp add: slice_def Let_def)














end
